theory Spec2Isabelle
  imports Main
begin

section \<open>Python strings\<close>

text \<open>
  Python \<open>str\<close> values are modelled as \<open>string\<close> (a list of characters). The three
  characters the escaping functions treat specially are named once.
\<close>

definition backtick :: char where
  "backtick = CHR 0x60"

definition dquote :: char where
  "dquote = CHR 0x22"

definition backslash :: char where
  "backslash = CHR 0x5C"

definition newline :: char where
  "newline = CHR 0x0A"

text \<open>
  \<open>s.replace(old, new)\<close> for a one-character \<open>old\<close>: every occurrence of the character is
  replaced, left to right; occurrences of a single character cannot overlap.
\<close>

definition str_replace :: "char \<Rightarrow> string \<Rightarrow> string \<Rightarrow> string" where
  "str_replace old new s = concat (map (\<lambda>c. if c = old then new else [c]) s)"

text \<open>\<open>sep.join(xs)\<close>.\<close>

fun join :: "string \<Rightarrow> string list \<Rightarrow> string" where
  "join sep [] = []"
| "join sep [x] = x"
| "join sep (x # y # ys) = x @ sep @ join sep (y # ys)"

text \<open>\<open>str(i)\<close> for a Python integer: decimal digits, with a leading minus sign.\<close>

definition digit_char :: "nat \<Rightarrow> char" where
  "digit_char d = char_of (48 + d)"

function str_nat :: "nat \<Rightarrow> string" where
  "str_nat n = (if n < 10 then [digit_char n] else str_nat (n div 10) @ [digit_char (n mod 10)])"
  by pat_completeness auto
termination
  by (relation "measure id") auto

declare str_nat.simps [simp del]

definition str_int :: "int \<Rightarrow> string" where
  "str_int i = (if i < 0 then CHR ''-'' # str_nat (nat (- i)) else str_nat (nat i))"

section \<open>Identifier and literal escaping (\<open>_common.py\<close>)\<close>

text \<open>\<open>escape(s)\<close>: \<open>"`" + s.replace("`", "``") + "`"\<close>.\<close>

definition escape :: "string \<Rightarrow> string" where
  "escape s = [backtick] @ str_replace backtick [backtick, backtick] s @ [backtick]"

text \<open>
  \<open>escaped_str(s)\<close>: backslashes are doubled first, then double quotes get a backslash,
  and the result is wrapped in double quotes.
\<close>

definition escaped_str :: "string \<Rightarrow> string" where
  "escaped_str s =
     [dquote]
     @ str_replace dquote [backslash, dquote] (str_replace backslash [backslash, backslash] s)
     @ [dquote]"

section \<open>Creation modes and errors\<close>

text \<open>
  The three enumerations of \<open>_common.py\<close>. Their members share names in the source
  (\<open>NodeCreationMode.CREATE\<close>, \<open>RelNodeCreationMode.CREATE\<close>, \<open>RelCreationMode.CREATE\<close>),
  so each constructor carries the name of its class.
\<close>

datatype NodeCreationMode =
    Node_CREATE
  | Node_MERGE_ON_ID_IGNORE_ON_MATCH
  | Node_MERGE_ON_ID_SET_ATTR_ON_MATCH
  | Node_MERGE_ON_ALL_ATTRIBUTES

datatype RelNodeCreationMode = RelNode_MERGE | RelNode_MATCH | RelNode_CREATE

datatype RelCreationMode = Rel_CREATE | Rel_MERGE

text \<open>
  The exceptions the modelled code raises. \<open>DriverError\<close> stands for any exception that
  comes out of the database driver (a failed transaction).
\<close>

datatype error =
    RuntimeError string
  | ValueError string
  | TypeError string
  | KeyError string
  | AttributeError string
  | AssertionError
  | DriverError string

section \<open>Statement builder (\<open>_cypher.py\<close>)\<close>

text \<open>
  \<open>Cypher.row_as_dict\<close>. With no (or an empty) \<open>attribute_indexes\<close> the attributes are
  enumerated from 0, otherwise they are zipped with the given indexes. Each pair is built
  by an f-string that splices \<open>escape(in_name)\<close> and the index, and then by
  \<open>format_escaped\<close>, which fills the field \<open>{key}\<close> with \<open>escape(key)\<close>. The model gives the
  result of the two steps for an \<open>in_name\<close> without braces (the program only passes
  \<open>"row"\<close>); substituted values are never parsed again, so keys are unrestricted.
\<close>

definition row_as_dict :: "string list \<Rightarrow> string \<Rightarrow> string \<Rightarrow> int list option \<Rightarrow> string" where
  "row_as_dict attributes in_name out_name attribute_indexes =
     (let attr_idx_iter =
            (case attribute_indexes of
               Some (i # is) \<Rightarrow> zip (i # is) attributes
             | _ \<Rightarrow> zip (map int [0..<length attributes]) attributes);
          attribute_pairs =
            map (\<lambda>(i, key). escape key @ '': '' @ escape in_name @ ''['' @ str_int i @ '']'')
              attr_idx_iter
      in ''{'' @ join '', '' attribute_pairs @ ''} AS '' @ escape out_name)"

text \<open>\<open>Cypher.inline_attributes\<close>; \<open>row_attr_map.get(key, key)\<close> renames a key.\<close>

definition inline_attributes ::
  "string list \<Rightarrow> (string \<rightharpoonup> string) option \<Rightarrow> string \<Rightarrow> string" where
  "inline_attributes attributes row_attr_map row_name =
     (let m = (case row_attr_map of None \<Rightarrow> Map.empty | Some m \<Rightarrow> m)
      in if attributes = [] then []
         else ''{''
              @ join '', ''
                  (map (\<lambda>key. escape (case m key of None \<Rightarrow> key | Some a \<Rightarrow> a)
                              @ '': '' @ escape row_name @ ''['' @ escaped_str key @ '']'')
                     attributes)
              @ ''}'')"

text \<open>\<open>Cypher.node_pattern\<close>.\<close>

definition node_pattern :: "string list option \<Rightarrow> string \<Rightarrow> string \<Rightarrow> string" where
  "node_pattern labels attributes name =
     (let ls = (case labels of None \<Rightarrow> [] | Some l \<Rightarrow> l);
          labels_str = concat (map (\<lambda>l. '':'' @ escape l) ls);
          attributes1 =
            (if attributes \<noteq> [] \<and> hd attributes \<noteq> CHR '' '' then '' '' @ attributes
             else attributes)
      in ''('' @ name @ labels_str @ attributes1 @ '')'')"

text \<open>
  \<open>Cypher.nodes_from_rows\<close>. The two merge-on-id modes call
  \<open>inline_attributes((id_,), row_attr_map)\<close>; with \<open>id_ = None\<close> the key \<open>None\<close> reaches
  \<open>escape\<close>, whose \<open>.replace\<close> raises \<open>AttributeError\<close>. The final \<open>else\<close> of the source
  (an unknown mode) has no counterpart: the datatype has no fifth member.
\<close>

definition inline_id :: "string option \<Rightarrow> (string \<rightharpoonup> string) option \<Rightarrow> error + string" where
  "inline_id ido row_attr_map =
     (case ido of
        None \<Rightarrow> Inl (AttributeError ''NoneType object has no attribute replace'')
      | Some k \<Rightarrow> Inr (inline_attributes [k] row_attr_map ''row''))"

definition nodes_from_rows ::
  "string list \<Rightarrow> string option \<Rightarrow> string list \<Rightarrow> NodeCreationMode
     \<Rightarrow> (string \<rightharpoonup> string) option \<Rightarrow> error + string" where
  "nodes_from_rows attributes ido labels creation_mode row_attr_map =
     (let set_statement = ''SET n = row'';
          with_statement = ''WITH '' @ row_as_dict attributes ''row'' ''row'' None @ [newline];
          finish = (\<lambda>create_statement set_statement.
                      ''UNWIND $rows AS row'' @ [newline]
                      @ with_statement @ create_statement @ set_statement)
      in case creation_mode of
           Node_CREATE \<Rightarrow>
             Inr (finish (''CREATE '' @ node_pattern (Some labels) [] ''n'' @ [newline])
                    set_statement)
         | Node_MERGE_ON_ID_IGNORE_ON_MATCH \<Rightarrow>
             (case inline_id ido row_attr_map of
                Inl e \<Rightarrow> Inl e
              | Inr a \<Rightarrow>
                  Inr (finish (''MERGE '' @ node_pattern (Some labels) a ''n'' @ [newline])
                         (''ON CREATE'' @ [newline] @ ''  '' @ set_statement)))
         | Node_MERGE_ON_ID_SET_ATTR_ON_MATCH \<Rightarrow>
             (case inline_id ido row_attr_map of
                Inl e \<Rightarrow> Inl e
              | Inr a \<Rightarrow>
                  Inr (finish (''MERGE '' @ node_pattern (Some labels) a ''n'' @ [newline])
                         set_statement))
         | Node_MERGE_ON_ALL_ATTRIBUTES \<Rightarrow>
             Inr (finish
                    (''MERGE ''
                     @ node_pattern (Some labels)
                         (inline_attributes attributes row_attr_map ''row'') ''n''
                     @ [newline])
                    []))"

section \<open>Session and bookmark manager (\<open>_base_connector.py\<close>)\<close>

text \<open>
  A database is named by a string or is \<open>None\<close> (the default of the \<open>database\<close> argument);
  a bookmark is a string.
\<close>

type_synonym db = "string option"

type_synonym token = string

text \<open>\<open>Result(keys, records)\<close>, over an arbitrary type \<open>'v\<close> of cell values.\<close>

record 'v result =
  result_keys :: "string list"
  result_records :: "'v list list"

text \<open>
  What the database driver answers for one session: the outcome of the transaction
  function (an exception or a result) and the value of \<open>session.last_bookmark()\<close> read
  afterwards.
\<close>

record 'v response =
  tx_outcome :: "error + 'v result"
  last_bookmark :: token

text \<open>
  The calls the connector makes on the driver, in order: \<open>driver.session(database,
  bookmarks)\<close>, and the transaction run in a session with its statement and its \<open>rows\<close>
  parameter (\<open>None\<close> when the caller passes no parameters).
\<close>

datatype tx_kind = ReadTx | WriteTx

datatype 'v driver_call =
    OpenSession db "token list"
  | RunTransaction tx_kind string "'v list list option"

text \<open>A future is what \<open>future.result()\<close> will do: raise or return.\<close>

datatype 'v future = Future "error + 'v result"

text \<open>
  The mutable fields of \<open>Neo4jConnectorBase\<close>. The two bookmark tables are
  \<open>defaultdict(list)\<close>: a partial map, where reading a missing key gives the empty list
  (\<open>dd_get\<close>) and also stores it (\<open>dd_touch\<close>).
\<close>

record 'v connector =
  bookmarks :: "db \<rightharpoonup> token list"
  parallel_bookmarks :: "db \<rightharpoonup> token list"
  parallel_mode :: bool
  futures :: "'v future list"

definition dd_get :: "('k \<rightharpoonup> 'a list) \<Rightarrow> 'k \<Rightarrow> 'a list" where
  "dd_get d k = (case d k of None \<Rightarrow> [] | Some v \<Rightarrow> v)"

definition dd_touch :: "('k \<rightharpoonup> 'a list) \<Rightarrow> 'k \<Rightarrow> ('k \<rightharpoonup> 'a list)" where
  "dd_touch d k = (case d k of None \<Rightarrow> d(k \<mapsto> []) | Some v \<Rightarrow> d)"

text \<open>
  \<open>_query\<close>: hands the transaction function to the session. Its outcome and the bookmark
  the session reports afterwards come from the driver's response.
\<close>

definition query ::
  "tx_kind \<Rightarrow> string \<Rightarrow> 'v list list option \<Rightarrow> 'v response
     \<Rightarrow> (error + 'v result) \<times> token \<times> 'v driver_call list" where
  "query kind cypher params resp =
     (tx_outcome resp, last_bookmark resp, [RunTransaction kind cypher params])"

text \<open>
  \<open>_get_sequential_session\<close>, a context manager: the part before \<open>yield\<close>, the body of the
  \<open>with\<close> statement, and the part after \<open>yield\<close>, which runs only when the body did not
  raise. An exception of the body leaves through the driver's session and the lines after
  \<open>yield\<close> are skipped. The state is returned in every case: Python does not undo the
  writes made before an exception.
\<close>

definition get_sequential_session ::
  "'v connector \<Rightarrow> db \<Rightarrow> ((error + 'a) \<times> token \<times> 'v driver_call list)
     \<Rightarrow> (error + 'a) \<times> 'v connector \<times> 'v driver_call list" where
  "get_sequential_session c database body =
     (if parallel_mode c
      then (Inl (RuntimeError ''Cannot execute this operation within parallelism block.''), c, [])
      else
        let bms = dd_get (bookmarks c) database;
            c1 = c\<lparr>bookmarks := dd_touch (bookmarks c) database\<rparr>
        in case body of
             (Inl e, tok, calls) \<Rightarrow> (Inl e, c1, OpenSession database bms # calls)
           | (Inr x, tok, calls) \<Rightarrow>
               (Inr x,
                c1\<lparr>bookmarks := (bookmarks c1)(database \<mapsto> [tok]),
                   parallel_bookmarks := (parallel_bookmarks c1)(database := None)\<rparr>,
                OpenSession database bms # calls))"

definition read_query ::
  "'v connector \<Rightarrow> string \<Rightarrow> 'v list list option \<Rightarrow> db \<Rightarrow> 'v response
     \<Rightarrow> (error + 'v result) \<times> 'v connector \<times> 'v driver_call list" where
  "read_query c cypher params database resp =
     get_sequential_session c database (query ReadTx cypher params resp)"

definition write_query ::
  "'v connector \<Rightarrow> string \<Rightarrow> 'v list list option \<Rightarrow> db \<Rightarrow> 'v response
     \<Rightarrow> (error + 'v result) \<times> 'v connector \<times> 'v driver_call list" where
  "write_query c cypher params database resp =
     get_sequential_session c database (query WriteTx cypher params resp)"

text \<open>
  \<open>_get_parallel_session\<close>: the same shape; after a clean body the bookmark is appended
  to the pending list of the database (under the lock).
\<close>

definition get_parallel_session ::
  "'v connector \<Rightarrow> db \<Rightarrow> ((error + 'a) \<times> token \<times> 'v driver_call list)
     \<Rightarrow> (error + 'a) \<times> 'v connector \<times> 'v driver_call list" where
  "get_parallel_session c database body =
     (if \<not> parallel_mode c
      then (Inl (RuntimeError ''Cannot execute this operation outside parallelism blocks.''), c, [])
      else
        let bms = dd_get (bookmarks c) database;
            c1 = c\<lparr>bookmarks := dd_touch (bookmarks c) database\<rparr>
        in case body of
             (Inl e, tok, calls) \<Rightarrow> (Inl e, c1, OpenSession database bms # calls)
           | (Inr x, tok, calls) \<Rightarrow>
               (Inr x,
                c1\<lparr>parallel_bookmarks :=
                     (parallel_bookmarks c1)
                       (database \<mapsto> dd_get (parallel_bookmarks c1) database @ [tok])\<rparr>,
                OpenSession database bms # calls))"

text \<open>
  \<open>parallel_read_query\<close> and \<open>parallel_write_query\<close> wrap the session and the query in a
  job, submit the job to the thread pool, append the future to \<open>_futures\<close> and return it.
  Nothing in them can raise the job's exception: it is stored in the future. The model
  runs the job to completion at the moment it is submitted, which is one of the schedules
  the pool allows; the outcome of the call itself is \<open>Inr\<close> of the future.
\<close>

definition submit ::
  "((error + 'v result) \<times> 'v connector \<times> 'v driver_call list)
     \<Rightarrow> (error + 'v future) \<times> 'v connector \<times> 'v driver_call list" where
  "submit job =
     (case job of
        (r, c1, calls) \<Rightarrow> (Inr (Future r), c1\<lparr>futures := futures c1 @ [Future r]\<rparr>, calls))"

definition parallel_read_query ::
  "'v connector \<Rightarrow> string \<Rightarrow> 'v list list option \<Rightarrow> db \<Rightarrow> 'v response
     \<Rightarrow> (error + 'v future) \<times> 'v connector \<times> 'v driver_call list" where
  "parallel_read_query c cypher params database resp =
     submit (get_parallel_session c database (query ReadTx cypher params resp))"

definition parallel_write_query ::
  "'v connector \<Rightarrow> string \<Rightarrow> 'v list list option \<Rightarrow> db \<Rightarrow> 'v response
     \<Rightarrow> (error + 'v future) \<times> 'v connector \<times> 'v driver_call list" where
  "parallel_write_query c cypher params database resp =
     submit (get_parallel_session c database (query WriteTx cypher params resp))"

text \<open>
  \<open>_consolidate_parallel_bookmarks\<close>: every key of the pending table with a non-empty list
  overwrites the bookmark of that key; then the pending table is cleared. Each round of
  the source's loop writes only the entry of its own key, so the loop is given pointwise.
\<close>

definition consolidate_parallel_bookmarks :: "'v connector \<Rightarrow> 'v connector" where
  "consolidate_parallel_bookmarks c =
     c\<lparr>bookmarks :=
          (\<lambda>d. case parallel_bookmarks c d of
                  Some (t # ts) \<Rightarrow> Some (t # ts)
                | _ \<Rightarrow> bookmarks c d),
       parallel_bookmarks := Map.empty\<rparr>"

text \<open>
  \<open>_await_futures\<close>: \<open>future.result()\<close> on each future in turn. The first one that raises
  ends the loop, and the assignment \<open>self._futures = []\<close> after the loop is not reached.
  The second component of \<open>await_loop\<close> lists the futures whose result was asked for.
\<close>

fun await_loop :: "'v future list \<Rightarrow> error option \<times> 'v future list" where
  "await_loop [] = (None, [])"
| "await_loop (Future (Inl e) # fs) = (Some e, [Future (Inl e)])"
| "await_loop (Future (Inr x) # fs) =
     (case await_loop fs of (r, awaited) \<Rightarrow> (r, Future (Inr x) # awaited))"

definition await_futures ::
  "'v connector \<Rightarrow> (error + unit) \<times> 'v connector \<times> 'v future list" where
  "await_futures c =
     (case await_loop (futures c) of
        (Some e, awaited) \<Rightarrow> (Inl e, c, awaited)
      | (None, awaited) \<Rightarrow> (Inr (), c\<lparr>futures := []\<rparr>, awaited))"

text \<open>
  \<open>parallelism\<close>, a context manager. \<open>parallelism_exit\<close> is its \<open>finally\<close> block: three
  statements in sequence, so an exception of the first skips the other two.
  \<open>parallelism\<close> runs a body between entry and exit; an exception of the \<open>finally\<close> block
  replaces the one of the body.
\<close>

definition parallelism_exit ::
  "'v connector \<Rightarrow> (error + unit) \<times> 'v connector \<times> 'v future list" where
  "parallelism_exit c =
     (case await_futures c of
        (Inl e, c1, awaited) \<Rightarrow> (Inl e, c1, awaited)
      | (Inr u, c1, awaited) \<Rightarrow>
          (Inr (), consolidate_parallel_bookmarks (c1\<lparr>parallel_mode := False\<rparr>), awaited))"

definition parallelism ::
  "'v connector \<Rightarrow> ('v connector \<Rightarrow> (error + 'a) \<times> 'v connector \<times> 'v driver_call list)
     \<Rightarrow> (error + 'a) \<times> 'v connector \<times> 'v driver_call list" where
  "parallelism c body =
     (case body (c\<lparr>parallel_mode := True\<rparr>) of
        (r, c2, calls) \<Rightarrow>
          (case parallelism_exit c2 of
             (Inl e, c3, awaited) \<Rightarrow> (Inl e, c3, calls)
           | (Inr u, c3, awaited) \<Rightarrow> (r, c3, calls)))"

subsection \<open>Callers of the sequential operations\<close>

text \<open>
  A caller that issues sequential queries one after the other, as the batch loops of the
  program do: each call returns before the next one is made, and the first exception ends
  the sequence. A call is given with the driver's response to it.
\<close>

record 'v seq_call =
  q_kind :: tx_kind
  q_cypher :: string
  q_params :: "'v list list option"
  q_database :: db
  q_response :: "'v response"

definition run_query ::
  "'v connector \<Rightarrow> 'v seq_call \<Rightarrow> (error + 'v result) \<times> 'v connector \<times> 'v driver_call list" where
  "run_query c q =
     (case q_kind q of
        ReadTx \<Rightarrow> read_query c (q_cypher q) (q_params q) (q_database q) (q_response q)
      | WriteTx \<Rightarrow> write_query c (q_cypher q) (q_params q) (q_database q) (q_response q))"

fun run_queries ::
  "'v connector \<Rightarrow> 'v seq_call list \<Rightarrow> (error + unit) \<times> 'v connector \<times> 'v driver_call list" where
  "run_queries c [] = (Inr (), c, [])"
| "run_queries c (q # qs) =
     (case run_query c q of
        (Inl e, c1, calls) \<Rightarrow> (Inl e, c1, calls)
      | (Inr x, c1, calls) \<Rightarrow>
          (case run_queries c1 qs of (r, c2, calls2) \<Rightarrow> (r, c2, calls @ calls2)))"

text \<open>The transaction of a call closed cleanly when its outcome is a result.\<close>

definition clean_response :: "'v response \<Rightarrow> bool" where
  "clean_response resp = (case tx_outcome resp of Inl e \<Rightarrow> False | Inr x \<Rightarrow> True)"

definition clean :: "'v seq_call \<Rightarrow> bool" where
  "clean q = clean_response (q_response q)"

text \<open>
  Reading a trace of driver calls: the sessions that were opened, with database and seed
  bookmarks, and the row batches of the transactions that were run.
\<close>

fun sessions :: "'v driver_call list \<Rightarrow> (db \<times> token list) list" where
  "sessions [] = []"
| "sessions (OpenSession d bms # calls) = (d, bms) # sessions calls"
| "sessions (RunTransaction k q p # calls) = sessions calls"

fun tx_rows :: "'v driver_call list \<Rightarrow> 'v list list option list" where
  "tx_rows [] = []"
| "tx_rows (OpenSession d bms # calls) = tx_rows calls"
| "tx_rows (RunTransaction k q p # calls) = p # tx_rows calls"

section \<open>Batch executor (\<open>_pandas_support.py\<close>)\<close>

text \<open>
  A data frame as a row source: its column keys in order and its rows. \<open>len(df)\<close> is the
  number of rows and \<open>df[a:b].to_numpy().tolist()\<close> the rows from \<open>a\<close> up to \<open>b\<close>.
\<close>

record 'v dataframe =
  df_columns :: "string list"
  df_rows :: "'v list list"

text \<open>
  \<open>range(start, stop, step)\<close> for a positive step, and \<open>range(0, stop, step)\<close> for any
  integer step: step 0 raises \<open>ValueError\<close>, a negative step gives no offsets.
\<close>

function range_from :: "nat \<Rightarrow> nat \<Rightarrow> nat \<Rightarrow> nat list" where
  "range_from start stop step =
     (if step = 0 \<or> stop \<le> start then [] else start # range_from (start + step) stop step)"
  by pat_completeness auto
termination
  by (relation "measure (\<lambda>(start, stop, step). stop - start)") auto

declare range_from.simps [simp del]

definition py_range :: "nat \<Rightarrow> int \<Rightarrow> error + nat list" where
  "py_range stop step =
     (if step = 0 then Inl (ValueError ''range() arg 3 must not be zero'')
      else if step < 0 then Inr []
      else Inr (range_from 0 stop (nat step)))"

text \<open>
  The slice \<open>df[offset:(offset + batch_size)]\<close> as a list of rows. It is only evaluated
  inside the loop, where \<open>batch_size\<close> is positive.
\<close>

definition df_slice :: "'v dataframe \<Rightarrow> nat \<Rightarrow> int \<Rightarrow> 'v list list" where
  "df_slice df offset batch_size = take (nat batch_size) (drop offset (df_rows df))"

text \<open>
  The calls of one batch loop: for the \<open>k\<close>-th offset a write of the statement with the
  slice as \<open>rows\<close>, against the default database, answered by \<open>env k\<close>.
\<close>

definition batch_calls ::
  "'v dataframe \<Rightarrow> string \<Rightarrow> int \<Rightarrow> (nat \<Rightarrow> 'v response) \<Rightarrow> nat list \<Rightarrow> 'v seq_call list" where
  "batch_calls df cypher batch_size env offsets =
     map (\<lambda>(k, offset).
            \<lparr>q_kind = WriteTx, q_cypher = cypher,
             q_params = Some (df_slice df offset batch_size),
             q_database = None, q_response = env k\<rparr>)
       (enumerate 0 offsets)"

text \<open>The same sequence of calls made through the parallel operations.\<close>

definition submit_query ::
  "'v connector \<Rightarrow> 'v seq_call \<Rightarrow> (error + 'v future) \<times> 'v connector \<times> 'v driver_call list" where
  "submit_query c q =
     (case q_kind q of
        ReadTx \<Rightarrow> parallel_read_query c (q_cypher q) (q_params q) (q_database q) (q_response q)
      | WriteTx \<Rightarrow> parallel_write_query c (q_cypher q) (q_params q) (q_database q) (q_response q))"

fun submit_queries ::
  "'v connector \<Rightarrow> 'v seq_call list \<Rightarrow> (error + unit) \<times> 'v connector \<times> 'v driver_call list" where
  "submit_queries c [] = (Inr (), c, [])"
| "submit_queries c (q # qs) =
     (case submit_query c q of
        (Inl e, c1, calls) \<Rightarrow> (Inl e, c1, calls)
      | (Inr f, c1, calls) \<Rightarrow>
          (case submit_queries c1 qs of (r, c2, calls2) \<Rightarrow> (r, c2, calls @ calls2)))"

text \<open>
  \<open>_batch_query_df\<close>. In the parallel branch the \<open>range\<close> is evaluated inside the
  parallelism scope, in the sequential branch the loop calls \<open>write_query\<close> directly.
\<close>

definition batch_query_df ::
  "'v connector \<Rightarrow> 'v dataframe \<Rightarrow> string \<Rightarrow> int \<Rightarrow> bool \<Rightarrow> (nat \<Rightarrow> 'v response)
     \<Rightarrow> (error + unit) \<times> 'v connector \<times> 'v driver_call list" where
  "batch_query_df c df cypher batch_size parallel env =
     (if parallel
      then parallelism c
             (\<lambda>c1. case py_range (length (df_rows df)) batch_size of
                      Inl e \<Rightarrow> (Inl e, c1, [])
                    | Inr offsets \<Rightarrow>
                        submit_queries c1 (batch_calls df cypher batch_size env offsets))
      else case py_range (length (df_rows df)) batch_size of
             Inl e \<Rightarrow> (Inl e, c, [])
           | Inr offsets \<Rightarrow> run_queries c (batch_calls df cypher batch_size env offsets))"

subsection \<open>Example values\<close>

text \<open>Concrete connectors, responses and a data frame, used to run the model.\<close>

definition ex_result :: "int result" where
  "ex_result = \<lparr>result_keys = [], result_records = []\<rparr>"

definition ex_ok :: "token \<Rightarrow> int response" where
  "ex_ok tok = \<lparr>tx_outcome = Inr ex_result, last_bookmark = tok\<rparr>"

definition ex_fail :: "int response" where
  "ex_fail = \<lparr>tx_outcome = Inl (DriverError ''constraint violated''), last_bookmark = ''none''\<rparr>"

definition ex_idle :: "int connector" where
  "ex_idle =
     \<lparr>bookmarks = [Some ''neo4j'' \<mapsto> [''b0'']],
      parallel_bookmarks = [Some ''neo4j'' \<mapsto> [''p1'', ''p2'']],
      parallel_mode = False, futures = []\<rparr>"

definition ex_fresh :: "int connector" where
  "ex_fresh =
     \<lparr>bookmarks = Map.empty, parallel_bookmarks = Map.empty,
      parallel_mode = False, futures = []\<rparr>"

definition ex_write :: "token \<Rightarrow> int seq_call" where
  "ex_write tok =
     \<lparr>q_kind = WriteTx, q_cypher = ''CREATE (n)'', q_params = None,
      q_database = Some ''neo4j'', q_response = ex_ok tok\<rparr>"

definition ex_df :: "int dataframe" where
  "ex_df = \<lparr>df_columns = [''x'', ''y''], df_rows = [[1, 10], [2, 20], [3, 30]]\<rparr>"

definition ex_env :: "nat \<Rightarrow> int response" where
  "ex_env k = (if k = 0 then ex_ok ''t0'' else ex_ok ''t1'')"

definition ex_env_fail_first :: "nat \<Rightarrow> int response" where
  "ex_env_fail_first k = (if k = 0 then ex_fail else ex_ok ''t1'')"

section \<open>Edge statements (\<open>_cypher.py\<close>)\<close>

text \<open>\<open>Cypher.rel_pattern\<close>.\<close>

definition rel_pattern ::
  "string \<Rightarrow> string \<Rightarrow> string list option \<Rightarrow> string \<Rightarrow> string \<Rightarrow> bool \<Rightarrow> string" where
  "rel_pattern src_node_pattern dst_node_pattern labels attributes name directed =
     (let ls = (case labels of None \<Rightarrow> [] | Some l \<Rightarrow> l);
          labels_str = concat (map (\<lambda>l. '':'' @ escape l) ls);
          arrow_tip = (if directed then ''>'' else [])
      in src_node_pattern @ ''-['' @ name @ labels_str @ '' '' @ attributes @ '']-''
         @ arrow_tip @ dst_node_pattern)"

text \<open>
  \<open>Cypher.rels_from_rows\<close>. The three assertions come first; the \<open>else\<close> branches for
  unknown modes have no counterpart in the datatypes.
\<close>

definition rel_node_verb :: "RelNodeCreationMode \<Rightarrow> string" where
  "rel_node_verb m =
     (case m of RelNode_MERGE \<Rightarrow> ''MERGE '' | RelNode_MATCH \<Rightarrow> ''MATCH ''
      | RelNode_CREATE \<Rightarrow> ''CREATE '')"

definition rels_from_rows ::
  "string list \<Rightarrow> string list \<Rightarrow> string list \<Rightarrow> string list
     \<Rightarrow> string list \<Rightarrow> string list \<Rightarrow> string list
     \<Rightarrow> RelNodeCreationMode \<Rightarrow> RelNodeCreationMode \<Rightarrow> RelCreationMode
     \<Rightarrow> (string \<rightharpoonup> string) option \<Rightarrow> error + string" where
  "rels_from_rows src_attributes dst_attributes rel_attributes all_attributes
       src_labels dst_labels rel_labels src_creation_mode dst_creation_mode
       rel_creation_mode row_attr_map =
     (if \<not> list_all (\<lambda>a. a \<in> set all_attributes) src_attributes then Inl AssertionError
      else if \<not> list_all (\<lambda>a. a \<in> set all_attributes) dst_attributes then Inl AssertionError
      else if \<not> list_all (\<lambda>a. a \<in> set all_attributes) rel_attributes then Inl AssertionError
      else
        let src_node_pattern =
              node_pattern (Some src_labels)
                (inline_attributes src_attributes row_attr_map ''row'') ''src'';
            src_create_statement =
              rel_node_verb src_creation_mode @ src_node_pattern @ [newline];
            dst_node_pattern =
              node_pattern (Some dst_labels)
                (inline_attributes dst_attributes row_attr_map ''row'') ''dst'';
            dst_create_statement =
              rel_node_verb dst_creation_mode @ dst_node_pattern @ [newline];
            pattern =
              rel_pattern (node_pattern None [] ''src'') (node_pattern None [] ''dst'')
                (Some rel_labels) (inline_attributes rel_attributes row_attr_map ''row'')
                ''r'' True;
            rel_create_statement =
              (case rel_creation_mode of
                 Rel_CREATE \<Rightarrow> ''CREATE '' @ pattern
               | Rel_MERGE \<Rightarrow> ''MERGE '' @ pattern);
            with_statement =
              ''WITH '' @ row_as_dict all_attributes ''row'' ''row'' None @ [newline]
        in Inr (''UNWIND $rows AS row'' @ [newline]
                @ with_statement @ src_create_statement @ dst_create_statement
                @ rel_create_statement))"

section \<open>Bulk creation (\<open>_pandas_support.py\<close>, \<open>_numpy_support.py\<close>)\<close>

text \<open>
  The bulk-creation methods are modelled up to the point where the batches are handed to
  the batch loop: the warnings they emit, the index-creation calls they make, and either
  the exception they raise or the dispatch they decide on (rows, statement, batch size and
  whether the parallel path is taken). The dispatch of \<open>save_nodes_df\<close> and \<open>save_rel_df\<close>
  is the argument list of \<open>_batch_query_df\<close>; \<open>save_nodes_np\<close> has the two loops inline.

  \<open>create_node_index\<close> and \<open>create_rel_index\<close> are represented by their assertion (the
  attribute list must not be empty) and by a record of the call; the index statement and
  its execution are left out.
\<close>

datatype index_call = NodeIndex string "string list" | RelIndex string "string list"

definition create_node_index :: "string \<Rightarrow> string list \<Rightarrow> error + index_call list" where
  "create_node_index label attributes =
     (if attributes = [] then Inl AssertionError else Inr [NodeIndex label attributes])"

definition create_rel_index :: "string \<Rightarrow> string list \<Rightarrow> error + index_call list" where
  "create_rel_index label attributes =
     (if attributes = [] then Inl AssertionError else Inr [RelIndex label attributes])"

record 'v dispatch =
  d_rows :: "'v list list"
  d_cypher :: string
  d_batch_size :: int
  d_parallel :: bool

record 'v save_outcome =
  warnings :: "string list"
  index_calls :: "index_call list"
  dispatched :: "error + 'v dispatch"

text \<open>Python truthiness of an optional string: \<open>None\<close> and \<open>""\<close> are false.\<close>

definition truthy :: "string option \<Rightarrow> bool" where
  "truthy s = (case s of None \<Rightarrow> False | Some t \<Rightarrow> t \<noteq> [])"

text \<open>
  \<open>ConnectorPandasSupport.save_nodes_df\<close>. After normalisation \<open>creation_mode\<close> is an
  enumeration member, which is always true as a condition, so the warning and the
  override depend on \<open>cypher is not None\<close> alone. The label is a string by its type.
\<close>

definition save_nodes_df ::
  "'v dataframe \<Rightarrow> string \<Rightarrow> string option \<Rightarrow> int \<Rightarrow> NodeCreationMode option
     \<Rightarrow> (string \<rightharpoonup> string) option \<Rightarrow> string option \<Rightarrow> 'v save_outcome" where
  "save_nodes_df df label ido batch_size creation_mode df_key_to_attr_map cypher =
     (let creation_mode1 = (case creation_mode of None \<Rightarrow> Node_CREATE | Some m \<Rightarrow> m);
          amap = (case df_key_to_attr_map of None \<Rightarrow> Map.empty | Some m \<Rightarrow> m);
          attr = (\<lambda>k. case amap k of None \<Rightarrow> k | Some a \<Rightarrow> a);
          warns =
            (if cypher \<noteq> None
             then [''Passed label and cypher template to from_nodes_df. creation_mode has no effect.'']
             else []);
          creation_mode2 = (if cypher \<noteq> None then Node_CREATE else creation_mode1)
      in if creation_mode2 \<in> set [Node_MERGE_ON_ID_IGNORE_ON_MATCH,
                                   Node_MERGE_ON_ID_SET_ATTR_ON_MATCH] \<and> ido = None
         then \<lparr>warnings = warns, index_calls = [],
               dispatched = Inl (ValueError ''id_ is needed when creation mode is either MERGE_ON_ID_IGNORE_ON_MATCH or MERGE_ON_ID_SET_ATTR_ON_MATCH'')\<rparr>
         else
           case (if creation_mode2 = Node_MERGE_ON_ALL_ATTRIBUTES
                 then create_node_index label (map attr (df_columns df)) else Inr []) of
             Inl e \<Rightarrow> \<lparr>warnings = warns, index_calls = [], dispatched = Inl e\<rparr>
           | Inr idx1 \<Rightarrow>
               (case (case ido of
                        None \<Rightarrow> Inr []
                      | Some k \<Rightarrow>
                          if k = [] then Inr []
                          else if k \<notin> set (df_columns df)
                          then Inl (KeyError ''Couldn't find id_ field in data frame'')
                          else if creation_mode2 \<noteq> Node_MERGE_ON_ALL_ATTRIBUTES
                          then create_node_index label [attr k]
                          else Inr []) of
                  Inl e \<Rightarrow> \<lparr>warnings = warns, index_calls = idx1, dispatched = Inl e\<rparr>
                | Inr idx2 \<Rightarrow>
                    (case (case cypher of
                             None \<Rightarrow>
                               nodes_from_rows (df_columns df) ido [label] creation_mode2
                                 (Some amap)
                           | Some q \<Rightarrow> Inr q) of
                       Inl e \<Rightarrow>
                         \<lparr>warnings = warns, index_calls = idx1 @ idx2, dispatched = Inl e\<rparr>
                     | Inr cypher1 \<Rightarrow>
                         \<lparr>warnings = warns, index_calls = idx1 @ idx2,
                          dispatched =
                            Inr \<lparr>d_rows = df_rows df, d_cypher = cypher1,
                                 d_batch_size = batch_size,
                                 d_parallel =
                                   (creation_mode2 \<in> set [Node_CREATE,
                                                           Node_MERGE_ON_ID_IGNORE_ON_MATCH]
                                    \<and> cypher = None)\<rparr>\<rparr>)))"

text \<open>
  A NumPy array as a row source: its shape and its rows (the slices along the first
  axis).
\<close>

record 'v ndarray =
  np_shape :: "nat list"
  np_rows :: "'v list list"

text \<open>
  \<open>ConnectorNumpySupport.save_nodes_np\<close>. The label and the attribute names are strings by
  their types, so the first two type checks cannot fail. The shape test
  \<open>len(array.shape) < 2 or array.shape[1] != len(attributes)\<close> is written as two tests in
  the order Python evaluates them. The warning condition
  \<open>cypher and (creation_mode or attributes)\<close> is the truthiness of \<open>cypher\<close>, since
  \<open>creation_mode\<close> is an enumeration member; the creation mode is not changed. Without a
  custom statement the method calls \<open>Cypher.nodes_from_rows(attributes, id_, [label],
  creation_mode)\<close> with four arguments, while the function has five required parameters:
  the call raises \<open>TypeError\<close>.
\<close>

definition save_nodes_np ::
  "'v ndarray \<Rightarrow> string list \<Rightarrow> string \<Rightarrow> string option \<Rightarrow> int \<Rightarrow> NodeCreationMode option
     \<Rightarrow> string option \<Rightarrow> 'v save_outcome" where
  "save_nodes_np array attributes label ido batch_size creation_mode cypher =
     (let creation_mode1 = (case creation_mode of None \<Rightarrow> Node_CREATE | Some m \<Rightarrow> m)
      in if length (np_shape array) < 2
         then \<lparr>warnings = [], index_calls = [],
               dispatched = Inl (ValueError ''array must have shape (n, m[, ...]) with m >= 2 and m == len(attributes)'')\<rparr>
         else if np_shape array ! 1 \<noteq> length attributes
         then \<lparr>warnings = [], index_calls = [],
               dispatched = Inl (ValueError ''array must have shape (n, m[, ...]) with m >= 2 and m == len(attributes)'')\<rparr>
         else if creation_mode1 \<in> set [Node_MERGE_ON_ID_IGNORE_ON_MATCH,
                                        Node_MERGE_ON_ID_SET_ATTR_ON_MATCH] \<and> ido = None
         then \<lparr>warnings = [], index_calls = [],
               dispatched = Inl (ValueError ''id_ is needed when creation mode is either MERGE_ON_ID_IGNORE_ON_MATCH or MERGE_ON_ID_SET_ATTR_ON_MATCH'')\<rparr>
         else
           case (if creation_mode1 = Node_MERGE_ON_ALL_ATTRIBUTES
                 then create_node_index label attributes else Inr []) of
             Inl e \<Rightarrow> \<lparr>warnings = [], index_calls = [], dispatched = Inl e\<rparr>
           | Inr idx1 \<Rightarrow>
               (case (case ido of
                        None \<Rightarrow> Inr []
                      | Some k \<Rightarrow>
                          if k = [] then Inr []
                          else if k \<notin> set attributes
                          then Inl (ValueError ''id_ must be in attributes'')
                          else if creation_mode1 \<noteq> Node_MERGE_ON_ALL_ATTRIBUTES
                          then create_node_index label [k]
                          else Inr []) of
                  Inl e \<Rightarrow> \<lparr>warnings = [], index_calls = idx1, dispatched = Inl e\<rparr>
                | Inr idx2 \<Rightarrow>
                    let warns =
                          (if truthy cypher
                           then [''Passed label and cypher template to from_nodes_df. Label will be ignored.'']
                           else [])
                    in case cypher of
                         None \<Rightarrow>
                           \<lparr>warnings = warns, index_calls = idx1 @ idx2,
                            dispatched = Inl (TypeError ''nodes_from_rows() missing 1 required positional argument: row_attr_map'')\<rparr>
                       | Some q \<Rightarrow>
                           \<lparr>warnings = warns, index_calls = idx1 @ idx2,
                            dispatched =
                              Inr \<lparr>d_rows = np_rows array, d_cypher = q,
                                   d_batch_size = batch_size,
                                   d_parallel =
                                     (creation_mode1 \<in> set [Node_CREATE,
                                        Node_MERGE_ON_ID_IGNORE_ON_MATCH])\<rparr>\<rparr>))"

text \<open>
  Members of different enumeration classes are different objects, and \<open>Enum\<close> members
  compare by identity: \<open>x in (A, B)\<close> holds only when \<open>x\<close> is the member \<open>A\<close> or the member
  \<open>B\<close>. To compare members across classes, each is tagged with its class.
\<close>

datatype enum_member =
    NodeCreationMode_member NodeCreationMode
  | RelNodeCreationMode_member RelNodeCreationMode
  | RelCreationMode_member RelCreationMode

text \<open>
  The local variable \<open>can_run_parallel\<close> of \<open>save_rel_df\<close>, with the tuples of the source:
  \<open>(RelNodeCreationMode.MATCH, RelCreationMode.CREATE)\<close>, twice.
\<close>

definition rel_can_run_parallel ::
  "RelCreationMode \<Rightarrow> RelNodeCreationMode \<Rightarrow> RelNodeCreationMode \<Rightarrow> bool" where
  "rel_can_run_parallel creation_mode src_creation_mode dst_creation_mode =
     (creation_mode = Rel_CREATE
      \<and> RelNodeCreationMode_member src_creation_mode
          \<in> set [RelNodeCreationMode_member RelNode_MATCH, RelCreationMode_member Rel_CREATE]
      \<and> RelNodeCreationMode_member dst_creation_mode
          \<in> set [RelNodeCreationMode_member RelNode_MATCH, RelCreationMode_member Rel_CREATE])"

text \<open>
  \<open>ConnectorPandasSupport.save_rel_df\<close>. The four names \<open>src_label\<close>, \<open>dst_label\<close>,
  \<open>src_id\<close>, \<open>dst_id\<close> are strings by their types; \<open>label\<close> defaults to \<open>None\<close>, which the
  type check refuses.
\<close>

definition save_rel_df ::
  "'v dataframe \<Rightarrow> string \<Rightarrow> string \<Rightarrow> string \<Rightarrow> string \<Rightarrow> string option \<Rightarrow> int
     \<Rightarrow> string list option \<Rightarrow> string list option
     \<Rightarrow> RelNodeCreationMode option \<Rightarrow> RelNodeCreationMode option \<Rightarrow> RelCreationMode option
     \<Rightarrow> (string \<rightharpoonup> string) option \<Rightarrow> string option \<Rightarrow> 'v save_outcome" where
  "save_rel_df df src_label src_id dst_label dst_id label batch_size src_attributes
       dst_attributes src_creation_mode dst_creation_mode creation_mode df_key_to_attr_map
       cypher =
     (let creation_mode1 = (case creation_mode of None \<Rightarrow> Rel_CREATE | Some m \<Rightarrow> m);
          src_creation_mode1 =
            (case src_creation_mode of None \<Rightarrow> RelNode_MERGE | Some m \<Rightarrow> m);
          dst_creation_mode1 =
            (case dst_creation_mode of None \<Rightarrow> RelNode_MERGE | Some m \<Rightarrow> m);
          src_attributes1 = (case src_attributes of None \<Rightarrow> [] | Some l \<Rightarrow> l);
          dst_attributes1 = (case dst_attributes of None \<Rightarrow> [] | Some l \<Rightarrow> l);
          amap = (case df_key_to_attr_map of None \<Rightarrow> Map.empty | Some m \<Rightarrow> m);
          attr = (\<lambda>k. case amap k of None \<Rightarrow> k | Some a \<Rightarrow> a);
          non_rel_attributes = {src_id, dst_id} \<union> set src_attributes1 \<union> set dst_attributes1;
          rel_attributes = filter (\<lambda>a. a \<notin> non_rel_attributes) (df_columns df);
          fail = (\<lambda>idx e. \<lparr>warnings = [], index_calls = idx, dispatched = Inl e\<rparr>)
      in case label of
           None \<Rightarrow> fail [] (TypeError ''label must be a string, not NoneType'')
         | Some label1 \<Rightarrow>
             if src_id \<notin> set (df_columns df)
             then fail [] (KeyError ''Couldn't find src_id field in data frame'')
             else if dst_id \<notin> set (df_columns df)
             then fail [] (KeyError ''Couldn't find dst_id field in data frame'')
             else
               let src_attributes2 = src_id # src_attributes1;
                   dst_attributes2 = dst_id # dst_attributes1
               in case create_node_index src_label (map attr src_attributes2) of
                    Inl e \<Rightarrow> fail [] e
                  | Inr idx1 \<Rightarrow>
                      (case create_node_index dst_label (map attr dst_attributes2) of
                         Inl e \<Rightarrow> fail idx1 e
                       | Inr idx2 \<Rightarrow>
                           (case create_rel_index label1 (map attr rel_attributes) of
                              Inl e \<Rightarrow> fail (idx1 @ idx2) e
                            | Inr idx3 \<Rightarrow>
                                (case (case cypher of
                                         None \<Rightarrow>
                                           rels_from_rows src_attributes2 dst_attributes2
                                             rel_attributes (df_columns df)
                                             [src_label] [dst_label] [label1]
                                             src_creation_mode1 dst_creation_mode1
                                             creation_mode1 (Some amap)
                                       | Some q \<Rightarrow> Inr q) of
                                   Inl e \<Rightarrow> fail (idx1 @ idx2 @ idx3) e
                                 | Inr cypher1 \<Rightarrow>
                                     \<lparr>warnings = [], index_calls = idx1 @ idx2 @ idx3,
                                      dispatched =
                                        Inr \<lparr>d_rows = df_rows df, d_cypher = cypher1,
                                             d_batch_size = batch_size,
                                             d_parallel =
                                               rel_can_run_parallel creation_mode1
                                                 src_creation_mode1 dst_creation_mode1\<rparr>\<rparr>))))"

subsection \<open>Example row sources\<close>

definition ex_array :: "int ndarray" where
  "ex_array = \<lparr>np_shape = [3, 2], np_rows = [[1, 10], [2, 20], [3, 30]]\<rparr>"

definition ex_rel_df :: "int dataframe" where
  "ex_rel_df =
     \<lparr>df_columns = [''a'', ''b'', ''w''], df_rows = [[1, 2, 5], [2, 3, 7], [3, 1, 9]]\<rparr>"

subsection \<open>Reading an escaped identifier back\<close>

text \<open>
  The inverse direction is not part of the program; it is the reader the round-trip
  property speaks about. \<open>interior\<close> strips the first and the last character,
  \<open>undouble\<close> turns each pair of backticks into one, and \<open>all_doubled\<close> holds when every
  backtick of a string stands in such a pair (scanning from the left).
\<close>

definition interior :: "string \<Rightarrow> string" where
  "interior s = butlast (tl s)"

fun undouble :: "string \<Rightarrow> string" where
  "undouble [] = []"
| "undouble [c] = [c]"
| "undouble (c # d # cs) =
     (if c = backtick \<and> d = backtick then backtick # undouble cs else c # undouble (d # cs))"

fun all_doubled :: "string \<Rightarrow> bool" where
  "all_doubled [] = True"
| "all_doubled [c] = (c \<noteq> backtick)"
| "all_doubled (c # d # cs) =
     (if c = backtick then d = backtick \<and> all_doubled cs else all_doubled (d # cs))"

definition unescape :: "string \<Rightarrow> string" where
  "unescape s = undouble (interior s)"

subsection \<open>The branching table of the specification\<close>

text \<open>
  These definitions follow the table of the specification, not the source: one definition
  per column (verb, match keys, SET clause), and \<open>table_statement\<close> assembling the four
  lines. Identifiers are written the way the program quotes them, with \<open>escape\<close>.
\<close>

definition table_verb :: "NodeCreationMode \<Rightarrow> string" where
  "table_verb creation_mode = (if creation_mode = Node_CREATE then ''CREATE'' else ''MERGE'')"

definition table_match_keys :: "NodeCreationMode \<Rightarrow> string \<Rightarrow> string list \<Rightarrow> string list" where
  "table_match_keys creation_mode key attributes =
     (case creation_mode of
        Node_CREATE \<Rightarrow> []
      | Node_MERGE_ON_ID_IGNORE_ON_MATCH \<Rightarrow> [key]
      | Node_MERGE_ON_ID_SET_ATTR_ON_MATCH \<Rightarrow> [key]
      | Node_MERGE_ON_ALL_ATTRIBUTES \<Rightarrow> attributes)"

definition table_set_clause :: "NodeCreationMode \<Rightarrow> string" where
  "table_set_clause creation_mode =
     (case creation_mode of
        Node_CREATE \<Rightarrow> ''SET n = row''
      | Node_MERGE_ON_ID_IGNORE_ON_MATCH \<Rightarrow> ''ON CREATE'' @ [newline] @ ''  SET n = row''
      | Node_MERGE_ON_ID_SET_ATTR_ON_MATCH \<Rightarrow> ''SET n = row''
      | Node_MERGE_ON_ALL_ATTRIBUTES \<Rightarrow> [])"

definition table_match_clause :: "(string \<rightharpoonup> string) option \<Rightarrow> string list \<Rightarrow> string" where
  "table_match_clause rm keys =
     (if keys = [] then []
      else '' {''
           @ join '', ''
               (map (\<lambda>k. escape (case rm of None \<Rightarrow> k
                                   | Some m \<Rightarrow> (case m k of None \<Rightarrow> k | Some a \<Rightarrow> a))
                           @ '': `row`['' @ escaped_str k @ '']'')
                  keys)
           @ ''}'')"

definition table_statement ::
  "string list \<Rightarrow> string \<Rightarrow> string list \<Rightarrow> NodeCreationMode
     \<Rightarrow> (string \<rightharpoonup> string) option \<Rightarrow> string" where
  "table_statement attributes key labels creation_mode rm =
     ''UNWIND $rows AS row'' @ [newline]
     @ ''WITH {''
     @ join '', ''
         (map (\<lambda>i. escape (attributes ! i) @ '': `row`['' @ str_nat i @ '']'')
            [0..<length attributes])
     @ ''} AS `row`'' @ [newline]
     @ table_verb creation_mode @ '' (n'' @ concat (map (\<lambda>l. '':'' @ escape l) labels)
     @ table_match_clause rm (table_match_keys creation_mode key attributes) @ '')''
     @ [newline]
     @ table_set_clause creation_mode"

section \<open>Properties of escaping\<close>

lemma interior_escape:
  "interior (escape s) = str_replace backtick [backtick, backtick] s"
  by (simp add: interior_def escape_def)

lemma undouble_other: "c \<noteq> backtick \<Longrightarrow> undouble (c # cs) = c # undouble cs"
  by (cases cs) simp_all

lemma all_doubled_other: "c \<noteq> backtick \<Longrightarrow> all_doubled (c # cs) = all_doubled cs"
  by (cases cs) simp_all

lemma undouble_replace:
  "undouble (str_replace backtick [backtick, backtick] s) = s"
  by (induction s) (simp_all add: str_replace_def undouble_other)

lemma all_doubled_replace:
  "all_doubled (str_replace backtick [backtick, backtick] s)"
  by (induction s) (simp_all add: str_replace_def all_doubled_other)

lemma unescape_escape: "unescape (escape s) = s"
  by (simp add: unescape_def interior_escape undouble_replace)

text \<open>
  C8. For every string \<open>s\<close>, the output of \<open>escape\<close> starts and ends with a backtick, every
  backtick between the two is one of a doubled pair, stripping the enclosing backticks and
  un-doubling gives back \<open>s\<close>, and therefore two names have the same escaped form only when
  they are the same name.
\<close>

theorem escape_roundtrip_injective:
  "hd (escape s) = backtick \<and> last (escape s) = backtick
   \<and> all_doubled (interior (escape s))
   \<and> unescape (escape s) = s
   \<and> ((escape s = escape t) = (s = t))"
proof -
  have inj: "(escape s = escape t) = (s = t)"
  proof
    assume "escape s = escape t"
    then have "unescape (escape s) = unescape (escape t)" by simp
    then show "s = t" by (simp add: unescape_escape)
  next
    assume "s = t"
    then show "escape s = escape t" by simp
  qed
  have ends: "hd (escape s) = backtick \<and> last (escape s) = backtick"
    by (simp add: escape_def)
  from ends inj show ?thesis
    by (simp add: interior_escape all_doubled_replace unescape_escape)
qed

section \<open>Properties of the statement builder\<close>

lemma escape_row: "escape ''row'' = ''`row`''"
  by (simp add: escape_def str_replace_def backtick_def)

lemma zip_enumerate:
  "map f (zip (map g [0..<length xs]) xs) = map (\<lambda>i. f (g i, xs ! i)) [0..<length xs]"
  by (rule nth_equalityI) simp_all

lemma str_int_int: "str_int (int i) = str_nat i"
  by (simp add: str_int_def)

lemma row_as_dict_row:
  "row_as_dict attributes ''row'' ''row'' None =
     ''{'' @ join '', ''
         (map (\<lambda>i. escape (attributes ! i) @ '': `row`['' @ str_nat i @ '']'')
            [0..<length attributes])
     @ ''} AS `row`''"
  by (simp add: row_as_dict_def zip_enumerate str_int_int escape_row)

lemma inline_attributes_row:
  "inline_attributes keys rm ''row'' =
     (if keys = [] then [] else tl (table_match_clause rm keys))"
  by (cases rm) (simp_all add: inline_attributes_def table_match_clause_def escape_row)

lemma node_pattern_n:
  "node_pattern (Some labels) (inline_attributes keys rm ''row'') ''n'' =
     ''(n'' @ concat (map (\<lambda>l. '':'' @ escape l) labels) @ table_match_clause rm keys @ '')''"
  by (cases rm) (simp_all add: node_pattern_def inline_attributes_def table_match_clause_def escape_row)

lemma node_pattern_n_empty:
  "node_pattern (Some labels) [] ''n'' =
     ''(n'' @ concat (map (\<lambda>l. '':'' @ escape l) labels) @ '')''"
  by (simp add: node_pattern_def)

text \<open>
  The claim as written gives the statement for attributes \<open>["x", "y"]\<close>, label \<open>"P"\<close> and
  mode Create with bare names \<open>x\<close>, \<open>y\<close> and \<open>row\<close>. The program quotes all three.
\<close>

theorem nodes_from_rows_bare_names_counterexample:
  "nodes_from_rows [''x'', ''y''] None [''P''] Node_CREATE None \<noteq>
     Inr (''UNWIND $rows AS row'' @ [newline]
          @ ''WITH {x: row[0], y: row[1]} AS row'' @ [newline]
          @ ''CREATE (n:`P`)'' @ [newline]
          @ ''SET n = row'')"
  by code_simp

text \<open>
  C2 (amended). For every attribute list, label list, primary key and rename map the
  rendered statement is the one the branching table describes, with every attribute key,
  every label and the row alias of the WITH line quoted by \<open>escape\<close>: Create renders
  \<open>CREATE\<close> with no match clause and \<open>SET n = row\<close>; MergeIgnoreOnMatch renders \<open>MERGE\<close>
  on the primary key only, followed by \<open>ON CREATE\<close> and, on the next line, \<open>SET n = row\<close>;
  MergeUpdateOnMatch renders \<open>MERGE\<close> on the primary key with \<open>SET n = row\<close>;
  MergeOnAllAttributes renders \<open>MERGE\<close> on every declared attribute with no SET clause.
  For attributes \<open>["x", "y"]\<close>, label \<open>"P"\<close> and mode Create the statement is the one shown,
  with \<open>x\<close>, \<open>y\<close>, \<open>row\<close> and \<open>P\<close> in backticks.
\<close>

theorem nodes_from_rows_table:
  "nodes_from_rows attributes ido labels Node_CREATE rm =
     Inr (table_statement attributes key labels Node_CREATE rm)
   \<and> nodes_from_rows attributes (Some key) labels Node_MERGE_ON_ID_IGNORE_ON_MATCH rm =
     Inr (table_statement attributes key labels Node_MERGE_ON_ID_IGNORE_ON_MATCH rm)
   \<and> nodes_from_rows attributes (Some key) labels Node_MERGE_ON_ID_SET_ATTR_ON_MATCH rm =
     Inr (table_statement attributes key labels Node_MERGE_ON_ID_SET_ATTR_ON_MATCH rm)
   \<and> nodes_from_rows attributes ido labels Node_MERGE_ON_ALL_ATTRIBUTES rm =
     Inr (table_statement attributes key labels Node_MERGE_ON_ALL_ATTRIBUTES rm)
   \<and> nodes_from_rows [''x'', ''y''] None [''P''] Node_CREATE None =
     Inr (''UNWIND $rows AS row'' @ [newline]
          @ ''WITH {`x`: `row`[0], `y`: `row`[1]} AS `row`'' @ [newline]
          @ ''CREATE (n:`P`)'' @ [newline]
          @ ''SET n = row'')"
proof -
  have a: "nodes_from_rows attributes ido labels Node_CREATE rm =
     Inr (table_statement attributes key labels Node_CREATE rm)"
    by (simp add: nodes_from_rows_def table_statement_def row_as_dict_row node_pattern_n_empty
        table_verb_def table_match_keys_def table_set_clause_def table_match_clause_def)
  have b: "nodes_from_rows attributes (Some key) labels Node_MERGE_ON_ID_IGNORE_ON_MATCH rm =
     Inr (table_statement attributes key labels Node_MERGE_ON_ID_IGNORE_ON_MATCH rm)"
    by (simp add: nodes_from_rows_def inline_id_def table_statement_def row_as_dict_row
        node_pattern_n table_verb_def table_match_keys_def table_set_clause_def)
  have c: "nodes_from_rows attributes (Some key) labels Node_MERGE_ON_ID_SET_ATTR_ON_MATCH rm =
     Inr (table_statement attributes key labels Node_MERGE_ON_ID_SET_ATTR_ON_MATCH rm)"
    by (simp add: nodes_from_rows_def inline_id_def table_statement_def row_as_dict_row
        node_pattern_n table_verb_def table_match_keys_def table_set_clause_def)
  have d: "nodes_from_rows attributes ido labels Node_MERGE_ON_ALL_ATTRIBUTES rm =
     Inr (table_statement attributes key labels Node_MERGE_ON_ALL_ATTRIBUTES rm)"
    by (simp add: nodes_from_rows_def table_statement_def row_as_dict_row
        node_pattern_n table_verb_def table_match_keys_def table_set_clause_def)
  have e: "nodes_from_rows [''x'', ''y''] None [''P''] Node_CREATE None =
     Inr (''UNWIND $rows AS row'' @ [newline]
          @ ''WITH {`x`: `row`[0], `y`: `row`[1]} AS `row`'' @ [newline]
          @ ''CREATE (n:`P`)'' @ [newline]
          @ ''SET n = row'')"
    by code_simp
  from a b c d e show ?thesis by blast
qed

section \<open>Properties of the session and bookmark manager\<close>

lemma dd_get_touch: "dd_get (dd_touch d k) j = dd_get d j"
  by (simp add: dd_get_def dd_touch_def split: option.splits)

lemma run_query_clean:
  assumes "\<not> parallel_mode c" and "clean q"
  shows "\<exists>x c1. run_query c q =
           (Inr x, c1, [OpenSession (q_database q) (dd_get (bookmarks c) (q_database q)),
                        RunTransaction (q_kind q) (q_cypher q) (q_params q)])
         \<and> bookmarks c1 = (dd_touch (bookmarks c) (q_database q))
                             (q_database q \<mapsto> [last_bookmark (q_response q)])
         \<and> parallel_bookmarks c1 = (parallel_bookmarks c)(q_database q := None)
         \<and> parallel_mode c1 = parallel_mode c \<and> futures c1 = futures c"
  using assms
  by (cases "q_kind q"; cases "tx_outcome (q_response q)")
     (simp_all add: run_query_def read_query_def write_query_def get_sequential_session_def
        query_def clean_def clean_response_def Let_def)

lemma run_query_sessions:
  assumes "\<not> parallel_mode c"
  shows "sessions (snd (snd (run_query c q))) =
           [(q_database q, dd_get (bookmarks c) (q_database q))]"
  using assms
  by (cases "q_kind q"; cases "tx_outcome (q_response q)")
     (simp_all add: run_query_def read_query_def write_query_def get_sequential_session_def
        query_def Let_def)

lemma sessions_append: "sessions (xs @ ys) = sessions xs @ sessions ys"
  by (induction xs rule: sessions.induct) simp_all

lemma tx_rows_append: "tx_rows (xs @ ys) = tx_rows xs @ tx_rows ys"
  by (induction xs rule: tx_rows.induct) simp_all

lemma run_queries_chain:
  assumes "\<not> parallel_mode c" and "\<forall>q \<in> set qs. q_database q = D \<and> clean q"
    and "q_database q' = D"
  shows "sessions (snd (snd (run_queries c (qs @ [q'])))) =
           (D, dd_get (bookmarks c) D) # map (\<lambda>q. (D, [last_bookmark (q_response q)])) qs"
  using assms
proof (induction qs arbitrary: c)
  case Nil
  from run_query_sessions [OF Nil(1), of q'] Nil(3) show ?case
    by (cases "run_query c q'"; cases "fst (run_query c q')") auto
next
  case (Cons q qs)
  from Cons.prems have qD: "q_database q = D" and qc: "clean q" by simp_all
  from run_query_clean [OF Cons.prems(1) qc] obtain x c1 where
    rq: "run_query c q = (Inr x, c1, [OpenSession D (dd_get (bookmarks c) D),
                        RunTransaction (q_kind q) (q_cypher q) (q_params q)])"
    and b1: "bookmarks c1 = (dd_touch (bookmarks c) D)(D \<mapsto> [last_bookmark (q_response q)])"
    and m1: "parallel_mode c1 = parallel_mode c"
    using qD by auto
  from m1 Cons.prems have "\<not> parallel_mode c1" by simp
  from Cons.IH [OF this] Cons.prems
  have ih: "sessions (snd (snd (run_queries c1 (qs @ [q'])))) =
           (D, dd_get (bookmarks c1) D) # map (\<lambda>q. (D, [last_bookmark (q_response q)])) qs"
    by simp
  have g: "dd_get (bookmarks c1) D = [last_bookmark (q_response q)]"
    by (simp add: b1 dd_get_def)
  show ?case using rq ih g
    by (cases "run_queries c1 (qs @ [q'])") (simp add: sessions_append)
qed

lemma run_queries_state:
  assumes "\<not> parallel_mode c" and "\<forall>q \<in> set qs. q_database q = D \<and> clean q" and "qs \<noteq> []"
  shows "fst (run_queries c qs) = Inr ()
       \<and> bookmarks (fst (snd (run_queries c qs))) D =
           Some [last_bookmark (q_response (last qs))]
       \<and> parallel_bookmarks (fst (snd (run_queries c qs))) D = None
       \<and> \<not> parallel_mode (fst (snd (run_queries c qs)))"
  using assms
proof (induction qs arbitrary: c)
  case Nil
  then show ?case by simp
next
  case (Cons q qs)
  from Cons.prems have qD: "q_database q = D" and qc: "clean q" by simp_all
  from run_query_clean [OF Cons.prems(1) qc] obtain x c1 where
    rq: "run_query c q = (Inr x, c1, [OpenSession D (dd_get (bookmarks c) D),
                        RunTransaction (q_kind q) (q_cypher q) (q_params q)])"
    and b1: "bookmarks c1 = (dd_touch (bookmarks c) D)(D \<mapsto> [last_bookmark (q_response q)])"
    and p1: "parallel_bookmarks c1 = (parallel_bookmarks c)(D := None)"
    and m1: "parallel_mode c1 = parallel_mode c"
    using qD by auto
  from m1 Cons.prems have nm: "\<not> parallel_mode c1" by simp
  show ?case
  proof (cases "qs = []")
    case True
    with rq b1 p1 nm show ?thesis by simp
  next
    case False
    from Cons.IH [OF nm _ False] Cons.prems
    have ih: "fst (run_queries c1 qs) = Inr ()
       \<and> bookmarks (fst (snd (run_queries c1 qs))) D =
           Some [last_bookmark (q_response (last qs))]
       \<and> parallel_bookmarks (fst (snd (run_queries c1 qs))) D = None
       \<and> \<not> parallel_mode (fst (snd (run_queries c1 qs)))"
      by simp
    with rq False show ?thesis
      by (cases "run_queries c1 qs") simp
  qed
qed

text \<open>
  C1. Let the connector be in sequential mode and let \<open>qs\<close> be \<open>N\<close> sequential queries
  against database \<open>D\<close> whose transactions all close cleanly, followed by one more query
  \<open>q'\<close> against \<open>D\<close>. Then the sessions the driver is asked to open are, in order: one
  seeded with the connector's bookmark list for \<open>D\<close> at the start, and then, for each of
  the \<open>N\<close> queries, one seeded with exactly the one-element list holding that query's
  closing bookmark; so session \<open>N + 1\<close> is seeded from the close of session \<open>N\<close> and from no
  older one. After the \<open>N\<close> queries (\<open>N > 0\<close>) the bookmark entry of \<open>D\<close> is the one-element
  list with the last closing bookmark and the pending parallel entry of \<open>D\<close> is gone.
\<close>

theorem sequential_bookmark_chain:
  assumes "\<not> parallel_mode c"
    and "\<forall>q \<in> set qs. q_database q = D \<and> clean q"
    and "q_database q' = D"
  shows "sessions (snd (snd (run_queries c (qs @ [q'])))) =
           (D, dd_get (bookmarks c) D) # map (\<lambda>q. (D, [last_bookmark (q_response q)])) qs
       \<and> (qs \<noteq> [] \<longrightarrow>
            fst (run_queries c qs) = Inr ()
            \<and> bookmarks (fst (snd (run_queries c qs))) D =
                Some [last_bookmark (q_response (last qs))]
            \<and> parallel_bookmarks (fst (snd (run_queries c qs))) D = None)"
  using run_queries_chain [OF assms] run_queries_state [OF assms(1) assms(2)] by blast

theorem sequential_bookmark_chain_witness:
  "\<not> parallel_mode ex_idle
   \<and> q_database (ex_write ''b1'') = Some ''neo4j'' \<and> clean (ex_write ''b1'')
   \<and> q_database (ex_write ''b2'') = Some ''neo4j'' \<and> clean (ex_write ''b2'')
   \<and> q_database (ex_write ''b3'') = Some ''neo4j''
   \<and> sessions (snd (snd (run_queries ex_idle
                            [ex_write ''b1'', ex_write ''b2'', ex_write ''b3'']))) =
       [(Some ''neo4j'', [''b0'']), (Some ''neo4j'', [''b1'']), (Some ''neo4j'', [''b2''])]
   \<and> bookmarks (fst (snd (run_queries ex_idle [ex_write ''b1'', ex_write ''b2''])))
        (Some ''neo4j'') = Some [''b2'']
   \<and> parallel_bookmarks (fst (snd (run_queries ex_idle [ex_write ''b1'', ex_write ''b2''])))
        (Some ''neo4j'') = None"
proof -
  have h1: "\<not> parallel_mode ex_idle"
    by (simp add: ex_idle_def)
  have h2: "\<forall>q \<in> set [ex_write ''b1'', ex_write ''b2'']. q_database q = Some ''neo4j'' \<and> clean q"
    by (simp add: ex_write_def ex_ok_def clean_def clean_response_def)
  have h3: "q_database (ex_write ''b3'') = Some ''neo4j''"
    by (simp add: ex_write_def)
  have s0: "dd_get (bookmarks ex_idle) (Some ''neo4j'') = [''b0'']"
    by (simp add: ex_idle_def dd_get_def)
  have h4: "q_database (ex_write ''b1'') = Some ''neo4j'' \<and> clean (ex_write ''b1'')
      \<and> q_database (ex_write ''b2'') = Some ''neo4j'' \<and> clean (ex_write ''b2'')"
    using h2 by simp
  from sequential_bookmark_chain [OF h1 h2 h3] h1 h3 h4 s0 show ?thesis
    by (simp add: ex_write_def ex_ok_def)
qed

lemma sequential_session_failed_body:
  "get_sequential_session c database (Inl e, tok, calls) =
     (if parallel_mode c
      then (Inl (RuntimeError ''Cannot execute this operation within parallelism block.''), c, [])
      else (Inl e, c\<lparr>bookmarks := dd_touch (bookmarks c) database\<rparr>,
            OpenSession database (dd_get (bookmarks c) database) # calls))"
  by (simp add: get_sequential_session_def Let_def)

text \<open>
  C10. If the transaction of \<open>read_query\<close> or \<open>write_query\<close> raises, the call raises (the
  transaction's exception, or the usage error when the connector is in parallel mode) and
  the connector keeps its bookmarks: for every database the bookmark list read from the
  table is the one read before the call, and the pending parallel table, the mode and the
  futures are the same. (Reading the entry of the target database stores the empty list
  under a key that was missing, which is what reading it gave before.)
\<close>

theorem failed_query_keeps_bookmarks:
  assumes "tx_outcome resp = Inl e"
  shows "fst (read_query c cypher params database resp) =
           Inl (if parallel_mode c
                then RuntimeError ''Cannot execute this operation within parallelism block.''
                else e)
       \<and> fst (write_query c cypher params database resp) =
           Inl (if parallel_mode c
                then RuntimeError ''Cannot execute this operation within parallelism block.''
                else e)
       \<and> (\<forall>d. dd_get (bookmarks (fst (snd (read_query c cypher params database resp)))) d =
                dd_get (bookmarks c) d
              \<and> dd_get (bookmarks (fst (snd (write_query c cypher params database resp)))) d =
                dd_get (bookmarks c) d)
       \<and> parallel_bookmarks (fst (snd (read_query c cypher params database resp))) =
           parallel_bookmarks c
       \<and> parallel_bookmarks (fst (snd (write_query c cypher params database resp))) =
           parallel_bookmarks c
       \<and> parallel_mode (fst (snd (read_query c cypher params database resp))) = parallel_mode c
       \<and> parallel_mode (fst (snd (write_query c cypher params database resp))) = parallel_mode c
       \<and> futures (fst (snd (read_query c cypher params database resp))) = futures c
       \<and> futures (fst (snd (write_query c cypher params database resp))) = futures c"
  using assms
  by (simp add: read_query_def write_query_def query_def sequential_session_failed_body
      dd_get_touch)

theorem failed_query_keeps_bookmarks_witness:
  "tx_outcome ex_fail = Inl (DriverError ''constraint violated'')
   \<and> fst (write_query ex_idle ''CREATE (n)'' None (Some ''neo4j'') ex_fail) =
       Inl (DriverError ''constraint violated'')
   \<and> dd_get (bookmarks (fst (snd (write_query ex_idle ''CREATE (n)'' None (Some ''neo4j'')
                                     ex_fail)))) (Some ''neo4j'') = [''b0'']
   \<and> parallel_bookmarks (fst (snd (write_query ex_idle ''CREATE (n)'' None (Some ''neo4j'')
                                     ex_fail))) (Some ''neo4j'') = Some [''p1'', ''p2'']"
proof -
  have h: "tx_outcome ex_fail = Inl (DriverError ''constraint violated'')"
    by (simp add: ex_fail_def)
  have m: "\<not> parallel_mode ex_idle"
    by (simp add: ex_idle_def)
  have b: "dd_get (bookmarks ex_idle) (Some ''neo4j'') = [''b0'']"
    by (simp add: ex_idle_def dd_get_def)
  have p: "parallel_bookmarks ex_idle (Some ''neo4j'') = Some [''p1'', ''p2'']"
    by (simp add: ex_idle_def)
  from failed_query_keeps_bookmarks [OF h, of ex_idle "''CREATE (n)''" None "Some ''neo4j''"]
    h m b p
  show ?thesis by simp
qed




lemma await_loop_all_done:
  "\<forall>f \<in> set fs. \<exists>x. f = Future (Inr x) \<Longrightarrow> await_loop fs = (None, fs)"
proof (induction fs)
  case Nil
  show ?case by simp
next
  case (Cons f fs)
  then obtain x where "f = Future (Inr x)" by auto
  with Cons show ?case by simp
qed

text \<open>
  When every outstanding future succeeded, the exit of a parallelism scope asks each of
  them for its result, empties the list, leaves parallel mode and consolidates the pending
  bookmarks.
\<close>

lemma parallelism_exit_all_done:
  assumes "\<forall>f \<in> set (futures c). \<exists>x. f = Future (Inr x)"
  shows "parallelism_exit c =
           (Inr (),
            c\<lparr>bookmarks :=
                 (\<lambda>d. case parallel_bookmarks c d of
                         Some (t # ts) \<Rightarrow> Some (t # ts)
                       | _ \<Rightarrow> bookmarks c d),
              parallel_bookmarks := Map.empty, parallel_mode := False, futures := []\<rparr>,
            futures c)"
  using await_loop_all_done [OF assms]
  by (simp add: parallelism_exit_def await_futures_def consolidate_parallel_bookmarks_def
      cong: option.case_cong list.case_cong)

text \<open>
  C4 at a failing input: a parallel batch write of three rows in batches of two, where the
  driver fails the first batch and completes the second. The scope raises the first
  exception, but its exit asked only the first future for its result; the futures list
  still holds both futures, the connector is still in parallel mode and the pending
  bookmark of the second batch was not consolidated. A sequential write after the scope is
  refused.
\<close>

theorem parallel_scope_failed_batch:
  "fst (batch_query_df ex_fresh ex_df ''Q'' 2 True ex_env_fail_first) =
     Inl (DriverError ''constraint violated'')
   \<and> futures (fst (snd (batch_query_df ex_fresh ex_df ''Q'' 2 True ex_env_fail_first))) =
       [Future (Inl (DriverError ''constraint violated'')), Future (Inr ex_result)]
   \<and> snd (snd (parallelism_exit
        \<lparr>bookmarks = [None \<mapsto> []], parallel_bookmarks = [None \<mapsto> [''t1'']],
         parallel_mode = True,
         futures = [Future (Inl (DriverError ''constraint violated'')),
                    Future (Inr ex_result)]\<rparr>)) =
       [Future (Inl (DriverError ''constraint violated''))]
   \<and> parallel_mode (fst (snd (batch_query_df ex_fresh ex_df ''Q'' 2 True ex_env_fail_first)))
   \<and> parallel_bookmarks (fst (snd (batch_query_df ex_fresh ex_df ''Q'' 2 True
        ex_env_fail_first))) None = Some [''t1'']
   \<and> bookmarks (fst (snd (batch_query_df ex_fresh ex_df ''Q'' 2 True ex_env_fail_first))) None =
       Some []
   \<and> fst (write_query
            (fst (snd (batch_query_df ex_fresh ex_df ''Q'' 2 True ex_env_fail_first)))
            ''RETURN 1'' None None (ex_ok ''t2'')) =
       Inl (RuntimeError ''Cannot execute this operation within parallelism block.'')"
  by code_simp

section \<open>Properties of the batch executor\<close>

lemma range_from_concat:
  "0 < b \<Longrightarrow>
     concat (map (\<lambda>off. take b (drop off xs)) (range_from s (length xs) b)) = drop s xs"
proof (induction s "length xs" b rule: range_from.induct)
  case (1 start step)
  show ?case
  proof (cases "length xs \<le> start")
    case True
    then show ?thesis by (simp add: range_from.simps)
  next
    case False
    with 1 have ih:
      "concat (map (\<lambda>off. take step (drop off xs))
                 (range_from (start + step) (length xs) step)) = drop (start + step) xs"
      by simp
    have "take step (drop start xs) @ drop (start + step) xs = drop start xs"
      by (metis add.commute append_take_drop_id drop_drop)
    with False 1(2) ih show ?thesis
      by (subst range_from.simps) simp
  qed
qed

lemma ceil_le: "0 < (b::nat) \<Longrightarrow> ((n + b - 1) div b \<le> j) = (n \<le> j * b)"
proof -
  assume b: "0 < b"
  have "(j < (n + b - 1) div b) = (Suc j \<le> (n + b - 1) div b)" by auto
  also have "\<dots> = (Suc j * b \<le> n + b - 1)"
    using b by (simp only: less_eq_div_iff_mult_less_eq)
  also have "\<dots> = (j * b < n)" using b by (cases n) auto
  finally show ?thesis by auto
qed

lemma range_from_mult:
  "0 < b \<Longrightarrow> range_from (j * b) n b = map (\<lambda>k. k * b) [j..<(n + b - 1) div b]"
proof (induction "j * b" n b arbitrary: j rule: range_from.induct)
  case (1 stop step)
  show ?case
  proof (cases "stop \<le> j * step")
    case True
    with 1(2) ceil_le [of step stop j] have "(stop + step - 1) div step \<le> j"
      by simp
    with True show ?thesis by (simp add: range_from.simps)
  next
    case False
    then have lt: "j < (stop + step - 1) div step" using 1(2) ceil_le [of step stop j]
      by simp
    from 1(1)[of "Suc j"] False 1(2)
    have "range_from (Suc j * step) stop step =
            map (\<lambda>k. k * step) [Suc j..<(stop + step - 1) div step]"
      by (simp add: add.commute)
    then have "range_from (j * step + step) stop step =
            map (\<lambda>k. k * step) [Suc j..<(stop + step - 1) div step]"
      by (simp add: add.commute)
    with lt False 1(2) show ?thesis
      by (subst range_from.simps) (simp add: upt_conv_Cons)
  qed
qed

lemma range_from_zero:
  "0 < b \<Longrightarrow> range_from 0 n b = map (\<lambda>k. k * b) [0..<(n + b - 1) div b]"
  using range_from_mult [of b 0 n] by simp

lemma enumerate_map_upt:
  "enumerate 0 (map f [0..<n]) = map (\<lambda>k. (k, f k)) [0..<n]"
  by (rule nth_equalityI) (simp_all add: nth_enumerate_eq)

lemma batch_calls_upt:
  "batch_calls df cypher (int b) env (map (\<lambda>k. k * b) [0..<n]) =
     map (\<lambda>k. \<lparr>q_kind = WriteTx, q_cypher = cypher,
               q_params = Some (take b (drop (k * b) (df_rows df))),
               q_database = None, q_response = env k\<rparr>) [0..<n]"
  by (simp add: batch_calls_def enumerate_map_upt df_slice_def)

lemma run_queries_clean:
  assumes "\<not> parallel_mode c" and "\<forall>q \<in> set qs. clean q"
  shows "fst (run_queries c qs) = Inr ()
       \<and> tx_rows (snd (snd (run_queries c qs))) = map q_params qs"
  using assms
proof (induction qs arbitrary: c)
  case Nil
  show ?case by simp
next
  case (Cons q qs)
  from Cons.prems have qc: "clean q" by simp
  from run_query_clean [OF Cons.prems(1) qc] obtain x c1 where
    rq: "run_query c q = (Inr x, c1, [OpenSession (q_database q)
                                        (dd_get (bookmarks c) (q_database q)),
                        RunTransaction (q_kind q) (q_cypher q) (q_params q)])"
    and m1: "parallel_mode c1 = parallel_mode c"
    by auto
  from m1 Cons.prems have "\<not> parallel_mode c1" by simp
  from Cons.IH [OF this] Cons.prems
  have ih: "fst (run_queries c1 qs) = Inr ()
       \<and> tx_rows (snd (snd (run_queries c1 qs))) = map q_params qs"
    by simp
  with rq show ?case
    by (cases "run_queries c1 qs") simp
qed

lemma run_queries_sessions:
  assumes "\<not> parallel_mode c" and "\<forall>q \<in> set qs. q_database q = D \<and> clean q"
  shows "sessions (snd (snd (run_queries c qs))) =
           map (\<lambda>i. (D, if i = 0 then dd_get (bookmarks c) D
                         else [last_bookmark (q_response (qs ! (i - 1)))]))
             [0..<length qs]"
proof (cases "qs = []")
  case True
  then show ?thesis by simp
next
  case False
  then have split: "qs = butlast qs @ [last qs]" by simp
  from assms(2) have b: "\<forall>q \<in> set (butlast qs). q_database q = D \<and> clean q"
    by (meson in_set_butlastD)
  from assms(2) False have l: "q_database (last qs) = D" by simp
  from run_queries_chain [OF assms(1) b l] split
  have eq: "sessions (snd (snd (run_queries c qs))) =
           (D, dd_get (bookmarks c) D)
           # map (\<lambda>q. (D, [last_bookmark (q_response q)])) (butlast qs)"
    by simp
  show ?thesis
    unfolding eq using False
    by (intro nth_equalityI) (auto simp: nth_Cons' nth_butlast)
qed

lemma run_queries_trace:
  assumes "\<not> parallel_mode c" and "\<forall>q \<in> set qs. q_database q = D \<and> clean q"
  shows "snd (snd (run_queries c qs)) =
           concat (map (\<lambda>i. [OpenSession D
                                 (if i = 0 then dd_get (bookmarks c) D
                                  else [last_bookmark (q_response (qs ! (i - 1)))]),
                               RunTransaction (q_kind (qs ! i)) (q_cypher (qs ! i))
                                 (q_params (qs ! i))])
                     [0..<length qs])"
  using assms
proof (induction qs arbitrary: c)
  case Nil
  show ?case by simp
next
  case (Cons q qs)
  from Cons.prems have qD: "q_database q = D" and qc: "clean q" by simp_all
  from run_query_clean [OF Cons.prems(1) qc] obtain x c1 where
    rq: "run_query c q = (Inr x, c1, [OpenSession D (dd_get (bookmarks c) D),
                        RunTransaction (q_kind q) (q_cypher q) (q_params q)])"
    and b1: "bookmarks c1 = (dd_touch (bookmarks c) D)(D \<mapsto> [last_bookmark (q_response q)])"
    and m1: "parallel_mode c1 = parallel_mode c"
    using qD by auto
  from m1 Cons.prems have nm: "\<not> parallel_mode c1" by simp
  have g: "dd_get (bookmarks c1) D = [last_bookmark (q_response q)]"
    by (simp add: b1 dd_get_def)
  from Cons.IH [OF nm] Cons.prems
  have ih0: "snd (snd (run_queries c1 qs)) =
           concat (map (\<lambda>i. [OpenSession D
                                 (if i = 0 then dd_get (bookmarks c1) D
                                  else [last_bookmark (q_response (qs ! (i - 1)))]),
                               RunTransaction (q_kind (qs ! i)) (q_cypher (qs ! i))
                                 (q_params (qs ! i))])
                     [0..<length qs])"
    by simp
  have ih: "snd (snd (run_queries c1 qs)) =
           concat (map (\<lambda>i. [OpenSession D
                                 (if i = 0 then [last_bookmark (q_response q)]
                                  else [last_bookmark (q_response (qs ! (i - 1)))]),
                               RunTransaction (q_kind (qs ! i)) (q_cypher (qs ! i))
                                 (q_params (qs ! i))])
                     [0..<length qs])"
    using ih0 unfolding g .
  have shift: "[0..<length (q # qs)] = 0 # map Suc [0..<length qs]"
    using upt_conv_Cons [of 0 "Suc (length qs)"] by (simp add: map_Suc_upt del: upt_Suc)
  show ?case
    unfolding shift using rq ih
    by (cases "run_queries c1 qs")
       (simp add: comp_def nth_Cons'
          if_distrib [of "\<lambda>z. [last_bookmark (q_response z)]"] cong: if_cong)
qed

text \<open>
  C7. Let the batch size \<open>b\<close> be positive, the connector in sequential mode, and let the
  driver complete every batch it is given. Then the sequential path of \<open>_batch_query_df\<close>
  returns normally and the calls it makes on the driver are, for \<open>k\<close> from 0 up to
  \<open>ceil(n / b)\<close> (\<open>n\<close> the number of rows) and nothing else: a session opened on the default
  database, then one write transaction running the given statement with the rows \<open>k * b\<close>
  up to \<open>(k + 1) * b\<close> as its \<open>rows\<close> parameter. So exactly \<open>ceil(n / b)\<close> batch writes are
  issued, in source order; the batches concatenated in the order they were run are the
  rows of the source; and the session of each batch after the first is seeded with the
  closing bookmark of the batch before it, which exists only once that batch has
  completed.
\<close>

theorem sequential_batching:
  assumes "0 < b" and "\<not> parallel_mode c"
    and "\<forall>k < (length (df_rows df) + b - 1) div b. clean_response (env k)"
  shows "fst (batch_query_df c df cypher (int b) False env) = Inr ()
       \<and> snd (snd (batch_query_df c df cypher (int b) False env)) =
           concat (map (\<lambda>k. [OpenSession None
                                 (if k = 0 then dd_get (bookmarks c) None
                                  else [last_bookmark (env (k - 1))]),
                               RunTransaction WriteTx cypher
                                 (Some (take b (drop (k * b) (df_rows df))))])
                     [0..<(length (df_rows df) + b - 1) div b])
       \<and> tx_rows (snd (snd (batch_query_df c df cypher (int b) False env))) =
           map (\<lambda>k. Some (take b (drop (k * b) (df_rows df))))
             [0..<(length (df_rows df) + b - 1) div b]
       \<and> length (tx_rows (snd (snd (batch_query_df c df cypher (int b) False env)))) =
           (length (df_rows df) + b - 1) div b
       \<and> concat (map (\<lambda>k. take b (drop (k * b) (df_rows df)))
                   [0..<(length (df_rows df) + b - 1) div b]) = df_rows df
       \<and> sessions (snd (snd (batch_query_df c df cypher (int b) False env))) =
           map (\<lambda>k. (None, if k = 0 then dd_get (bookmarks c) None
                            else [last_bookmark (env (k - 1))]))
             [0..<(length (df_rows df) + b - 1) div b]"
proof -
  let ?n = "(length (df_rows df) + b - 1) div b"
  let ?qs = "map (\<lambda>k. \<lparr>q_kind = WriteTx, q_cypher = cypher,
               q_params = Some (take b (drop (k * b) (df_rows df))),
               q_database = None, q_response = env k\<rparr>) [0..<?n]"
  have run: "batch_query_df c df cypher (int b) False env = run_queries c ?qs"
    using assms(1)
    by (simp add: batch_query_df_def py_range_def range_from_zero batch_calls_upt)
  have cl: "\<forall>q \<in> set ?qs. q_database q = None \<and> clean q"
    using assms(3) by (auto simp: clean_def)
  then have cl2: "\<forall>q \<in> set ?qs. clean q" by blast
  have a: "fst (run_queries c ?qs) = Inr ()
       \<and> tx_rows (snd (snd (run_queries c ?qs))) = map q_params ?qs"
    by (rule run_queries_clean [OF assms(2) cl2])
  have s: "sessions (snd (snd (run_queries c ?qs))) =
           map (\<lambda>i. (None, if i = 0 then dd_get (bookmarks c) None
                         else [last_bookmark (q_response (?qs ! (i - 1)))]))
             [0..<length ?qs]"
    by (rule run_queries_sessions [OF assms(2) cl])
  have s2: "sessions (snd (snd (run_queries c ?qs))) =
           map (\<lambda>k. (None, if k = 0 then dd_get (bookmarks c) None
                            else [last_bookmark (env (k - 1))])) [0..<?n]"
    unfolding s by (rule nth_equalityI) auto
  have t: "snd (snd (run_queries c ?qs)) =
           concat (map (\<lambda>i. [OpenSession None
                                 (if i = 0 then dd_get (bookmarks c) None
                                  else [last_bookmark (q_response (?qs ! (i - 1)))]),
                               RunTransaction (q_kind (?qs ! i)) (q_cypher (?qs ! i))
                                 (q_params (?qs ! i))])
                     [0..<length ?qs])"
    by (rule run_queries_trace [OF assms(2) cl])
  have m: "map (\<lambda>i. [OpenSession None
                                 (if i = 0 then dd_get (bookmarks c) None
                                  else [last_bookmark (q_response (?qs ! (i - 1)))]),
                               RunTransaction (q_kind (?qs ! i)) (q_cypher (?qs ! i))
                                 (q_params (?qs ! i))])
                     [0..<length ?qs] =
           map (\<lambda>k. [OpenSession None
                                 (if k = 0 then dd_get (bookmarks c) None
                                  else [last_bookmark (env (k - 1))]),
                               RunTransaction WriteTx cypher
                                 (Some (take b (drop (k * b) (df_rows df))))])
                     [0..<?n]"
    by (rule nth_equalityI) auto
  have t2: "snd (snd (run_queries c ?qs)) =
           concat (map (\<lambda>k. [OpenSession None
                                 (if k = 0 then dd_get (bookmarks c) None
                                  else [last_bookmark (env (k - 1))]),
                               RunTransaction WriteTx cypher
                                 (Some (take b (drop (k * b) (df_rows df))))])
                     [0..<?n])"
    unfolding t m ..
  have cc: "concat (map (\<lambda>k. take b (drop (k * b) (df_rows df))) [0..<?n]) = df_rows df"
    using range_from_concat [OF assms(1), of "df_rows df" 0] assms(1)
    by (simp add: range_from_zero comp_def)
  have a1: "fst (run_queries c ?qs) = Inr ()" using a by simp
  have a2: "tx_rows (snd (snd (run_queries c ?qs))) =
              map (\<lambda>k. Some (take b (drop (k * b) (df_rows df)))) [0..<?n]"
    using a by (simp add: comp_def)
  have a3: "length (tx_rows (snd (snd (run_queries c ?qs)))) = ?n"
    unfolding a2 by simp
  from a1 t2 a2 a3 cc s2 show ?thesis
    unfolding run by blast
qed

theorem sequential_batching_witness:
  "(0::nat) < 2 \<and> \<not> parallel_mode ex_fresh
   \<and> (length (df_rows ex_df) + 2 - 1) div 2 = (2::nat)
   \<and> clean_response (ex_env 0) \<and> clean_response (ex_env 1)
   \<and> fst (batch_query_df ex_fresh ex_df ''Q'' 2 False ex_env) = Inr ()
   \<and> snd (snd (batch_query_df ex_fresh ex_df ''Q'' 2 False ex_env)) =
       [OpenSession None [], RunTransaction WriteTx ''Q'' (Some [[1, 10], [2, 20]]),
        OpenSession None [''t0''], RunTransaction WriteTx ''Q'' (Some [[3, 30]])]
   \<and> tx_rows (snd (snd (batch_query_df ex_fresh ex_df ''Q'' 2 False ex_env))) =
       [Some [[1, 10], [2, 20]], Some [[3, 30]]]
   \<and> sessions (snd (snd (batch_query_df ex_fresh ex_df ''Q'' 2 False ex_env))) =
       [(None, []), (None, [''t0''])]"
proof -
  have h1: "(0::nat) < 2" by simp
  have h2: "\<not> parallel_mode ex_fresh" by (simp add: ex_fresh_def)
  have h3: "\<forall>k < (length (df_rows ex_df) + 2 - 1) div 2. clean_response (ex_env k)"
    by (simp add: ex_env_def ex_ok_def clean_response_def)
  have n: "(length (df_rows ex_df) + 2 - 1) div 2 = 2" by (simp add: ex_df_def)
  have u: "[0..<2] = [0, Suc 0]" by (simp add: upt_conv_Cons)
  have g: "dd_get (bookmarks ex_fresh) None = []" by (simp add: ex_fresh_def dd_get_def)
  have e0: "last_bookmark (ex_env 0) = ''t0''" by (simp add: ex_env_def ex_ok_def)
  have r: "df_rows ex_df = [[1, 10], [2, 20], [3, 30]]" by (simp add: ex_df_def)
  have c0: "clean_response (ex_env 0) \<and> clean_response (ex_env 1)"
    by (simp add: ex_env_def ex_ok_def clean_response_def)
  from sequential_batching [OF h1 h2 h3, of "''Q''"] h1 h2 c0
  show ?thesis
    by (simp add: n u g r e0)
qed

lemma nodes_from_rows_merge_ignore:
  "nodes_from_rows attributes (Some key) labels Node_MERGE_ON_ID_IGNORE_ON_MATCH rm =
     Inr (table_statement attributes key labels Node_MERGE_ON_ID_IGNORE_ON_MATCH rm)"
  by (simp add: nodes_from_rows_def inline_id_def table_statement_def row_as_dict_row
      node_pattern_n table_verb_def table_match_keys_def table_set_clause_def)

lemma nodes_from_rows_merge_update:
  "nodes_from_rows attributes (Some key) labels Node_MERGE_ON_ID_SET_ATTR_ON_MATCH rm =
     Inr (table_statement attributes key labels Node_MERGE_ON_ID_SET_ATTR_ON_MATCH rm)"
  by (simp add: nodes_from_rows_def inline_id_def table_statement_def row_as_dict_row
      node_pattern_n table_verb_def table_match_keys_def table_set_clause_def)

section \<open>Properties of bulk creation\<close>

text \<open>
  Whenever \<open>save_rel_df\<close> reaches the batch loop, the parallel path is taken exactly when
  the edge mode is Create (given or by default) and both endpoint modes are Match: the
  member \<open>RelCreationMode.CREATE\<close> in the two tuples never equals an endpoint mode.
\<close>

lemma rel_can_run_parallel_iff:
  "rel_can_run_parallel creation_mode src_creation_mode dst_creation_mode =
     (creation_mode = Rel_CREATE \<and> src_creation_mode = RelNode_MATCH
      \<and> dst_creation_mode = RelNode_MATCH)"
  by (simp add: rel_can_run_parallel_def)

lemma save_rel_df_parallel_iff:
  assumes "dispatched (save_rel_df df src_label src_id dst_label dst_id label batch_size
             src_attributes dst_attributes src_creation_mode dst_creation_mode creation_mode
             df_key_to_attr_map cypher) = Inr d"
  shows "d_parallel d =
           ((creation_mode = None \<or> creation_mode = Some Rel_CREATE)
            \<and> src_creation_mode = Some RelNode_MATCH
            \<and> dst_creation_mode = Some RelNode_MATCH)"
proof -
  have "d_parallel d =
          rel_can_run_parallel (case creation_mode of None \<Rightarrow> Rel_CREATE | Some m \<Rightarrow> m)
            (case src_creation_mode of None \<Rightarrow> RelNode_MERGE | Some m \<Rightarrow> m)
            (case dst_creation_mode of None \<Rightarrow> RelNode_MERGE | Some m \<Rightarrow> m)"
  proof (cases label)
    case None
    with assms show ?thesis by (simp add: save_rel_df_def Let_def)
  next
    case (Some label1)
    with assms show ?thesis
      by (cases cypher) (auto simp: save_rel_df_def Let_def split: sum.splits if_splits)
  qed
  then show ?thesis
    by (cases creation_mode; cases src_creation_mode; cases dst_creation_mode)
       (auto simp: rel_can_run_parallel_iff)
qed

text \<open>
  C3 at a failing input: a data frame with columns \<open>a\<close>, \<open>b\<close>, \<open>w\<close>, source id \<open>a\<close>,
  destination id \<open>b\<close>, label \<open>R\<close>, edge mode Create. With source mode Create and
  destination mode Match the batches go to the sequential path, although both endpoint
  modes are in \<open>{Match, Create}\<close>. With both endpoint modes Match they go to the parallel
  path, and with source mode Merge to the sequential path.
\<close>

theorem save_rel_df_create_endpoint_sequential:
  "map_sum id d_parallel
     (dispatched (save_rel_df ex_rel_df ''A'' ''a'' ''B'' ''b'' (Some ''R'') 2 None None
        (Some RelNode_CREATE) (Some RelNode_MATCH) (Some Rel_CREATE) None None)) = Inr False
   \<and> map_sum id d_parallel
     (dispatched (save_rel_df ex_rel_df ''A'' ''a'' ''B'' ''b'' (Some ''R'') 2 None None
        (Some RelNode_MATCH) (Some RelNode_CREATE) (Some Rel_CREATE) None None)) = Inr False
   \<and> map_sum id d_parallel
     (dispatched (save_rel_df ex_rel_df ''A'' ''a'' ''B'' ''b'' (Some ''R'') 2 None None
        (Some RelNode_MATCH) (Some RelNode_MATCH) (Some Rel_CREATE) None None)) = Inr True
   \<and> map_sum id d_parallel
     (dispatched (save_rel_df ex_rel_df ''A'' ''a'' ''B'' ''b'' (Some ''R'') 2 None None
        (Some RelNode_MERGE) (Some RelNode_MATCH) (Some Rel_CREATE) None None)) = Inr False"
  by code_simp

text \<open>
  The claim as written sends every node bulk creation with mode Create to the parallel
  path. On the table path a custom statement keeps the batches on the sequential path.
\<close>

theorem save_nodes_df_custom_statement_counterexample:
  "map_sum id d_parallel
     (dispatched (save_nodes_df ex_df ''P'' None 2 (Some Node_CREATE) None
        (Some ''UNWIND $rows AS row CREATE (n:P {x: row[0]})''))) = Inr False"
  by code_simp

text \<open>
  C6 (amended). Whenever \<open>save_nodes_df\<close> (table path) reaches the batch loop, the parallel
  path is taken exactly when no custom statement was given and the creation mode is
  Create (given or by default) or MergeIgnoreOnMatch; so with MergeUpdateOnMatch or
  MergeOnAllAttributes the batches run on the sequential path. On the array path
  (\<open>save_nodes_np\<close>) no call with MergeUpdateOnMatch or MergeOnAllAttributes ends in a
  parallel dispatch. Nothing is stated about when the array path takes the parallel
  path.
\<close>

theorem node_dispatch_parallel_iff:
  assumes "dispatched (save_nodes_df df label ido batch_size creation_mode
             df_key_to_attr_map cypher) = Inr d"
  shows "d_parallel d =
           (cypher = None
            \<and> (creation_mode = None \<or> creation_mode = Some Node_CREATE
               \<or> creation_mode = Some Node_MERGE_ON_ID_IGNORE_ON_MATCH))
       \<and> (creation_mode = Some Node_MERGE_ON_ID_SET_ATTR_ON_MATCH
          \<or> creation_mode = Some Node_MERGE_ON_ALL_ATTRIBUTES \<longrightarrow> \<not> d_parallel d)
       \<and> map_sum id d_parallel
            (dispatched (save_nodes_np array attributes label' ido' batch_size'
               (Some Node_MERGE_ON_ID_SET_ATTR_ON_MATCH) cypher')) \<noteq> Inr True
       \<and> map_sum id d_parallel
            (dispatched (save_nodes_np array attributes label' ido' batch_size'
               (Some Node_MERGE_ON_ALL_ATTRIBUTES) cypher')) \<noteq> Inr True"
proof -
  have a: "d_parallel d =
           (cypher = None
            \<and> (creation_mode = None \<or> creation_mode = Some Node_CREATE
               \<or> creation_mode = Some Node_MERGE_ON_ID_IGNORE_ON_MATCH))"
    using assms
    by (auto simp: save_nodes_df_def Let_def
        split: option.splits sum.splits if_splits)
  have b: "map_sum id d_parallel
            (dispatched (save_nodes_np array attributes label' ido' batch_size'
               (Some Node_MERGE_ON_ID_SET_ATTR_ON_MATCH) cypher')) \<noteq> Inr True"
    by (auto simp: save_nodes_np_def Let_def
        split: option.splits sum.splits if_splits)
  have c: "map_sum id d_parallel
            (dispatched (save_nodes_np array attributes label' ido' batch_size'
               (Some Node_MERGE_ON_ALL_ATTRIBUTES) cypher')) \<noteq> Inr True"
    by (auto simp: save_nodes_np_def Let_def
        split: option.splits sum.splits if_splits)
  from a b c show ?thesis by auto
qed

theorem node_dispatch_parallel_iff_witness:
  "dispatched (save_nodes_df ex_df ''P'' (Some ''x'') 2
       (Some Node_MERGE_ON_ID_IGNORE_ON_MATCH) None None) =
     Inr \<lparr>d_rows = df_rows ex_df,
          d_cypher = table_statement [''x'', ''y''] ''x'' [''P'']
                       Node_MERGE_ON_ID_IGNORE_ON_MATCH (Some Map.empty),
          d_batch_size = 2, d_parallel = True\<rparr>
   \<and> d_parallel \<lparr>d_rows = df_rows ex_df,
          d_cypher = table_statement [''x'', ''y''] ''x'' [''P'']
                       Node_MERGE_ON_ID_IGNORE_ON_MATCH (Some Map.empty),
          d_batch_size = 2, d_parallel = True\<rparr>
   \<and> dispatched (save_nodes_df ex_df ''P'' (Some ''x'') 2
       (Some Node_MERGE_ON_ID_SET_ATTR_ON_MATCH) None None) =
     Inr \<lparr>d_rows = df_rows ex_df,
          d_cypher = table_statement [''x'', ''y''] ''x'' [''P'']
                       Node_MERGE_ON_ID_SET_ATTR_ON_MATCH (Some Map.empty),
          d_batch_size = 2, d_parallel = False\<rparr>
   \<and> map_sum id d_parallel
       (dispatched (save_nodes_np ex_array [''x'', ''y''] ''P'' (Some ''x'') 2
          (Some Node_MERGE_ON_ID_SET_ATTR_ON_MATCH)
          (Some ''UNWIND $rows AS row CREATE (n:P)''))) = Inr False"
proof -
  have h1: "dispatched (save_nodes_df ex_df ''P'' (Some ''x'') 2
       (Some Node_MERGE_ON_ID_IGNORE_ON_MATCH) None None) =
     Inr \<lparr>d_rows = df_rows ex_df,
          d_cypher = table_statement [''x'', ''y''] ''x'' [''P'']
                       Node_MERGE_ON_ID_IGNORE_ON_MATCH (Some Map.empty),
          d_batch_size = 2, d_parallel = True\<rparr>"
    using nodes_from_rows_merge_ignore [of "[''x'', ''y'']" "''x''" "[''P'']" "Some Map.empty"]
    by (simp add: save_nodes_df_def ex_df_def create_node_index_def)
  have h2: "dispatched (save_nodes_df ex_df ''P'' (Some ''x'') 2
       (Some Node_MERGE_ON_ID_SET_ATTR_ON_MATCH) None None) =
     Inr \<lparr>d_rows = df_rows ex_df,
          d_cypher = table_statement [''x'', ''y''] ''x'' [''P'']
                       Node_MERGE_ON_ID_SET_ATTR_ON_MATCH (Some Map.empty),
          d_batch_size = 2, d_parallel = False\<rparr>"
    using nodes_from_rows_merge_update [of "[''x'', ''y'']" "''x''" "[''P'']" "Some Map.empty"]
    by (simp add: save_nodes_df_def ex_df_def create_node_index_def)
  have h3: "map_sum id d_parallel
       (dispatched (save_nodes_np ex_array [''x'', ''y''] ''P'' (Some ''x'') 2
          (Some Node_MERGE_ON_ID_SET_ATTR_ON_MATCH)
          (Some ''UNWIND $rows AS row CREATE (n:P)''))) = Inr False"
    by (simp add: save_nodes_np_def ex_array_def create_node_index_def truthy_def)
  from node_dispatch_parallel_iff [OF h1] h1 h2 h3 show ?thesis by simp
qed

text \<open>
  C9 at a failing input: the array path is given a custom statement together with the
  mode MergeIgnoreOnMatch and no primary key. It raises \<open>ValueError\<close> for the missing key
  and emits no warning, so the supplied mode is still in force; the table path, given the
  same arguments, warns and goes on. With a primary key the array path warns, but the
  supplied mode still decides the path: MergeUpdateOnMatch runs sequentially where
  Create runs in parallel.
\<close>

theorem save_nodes_np_keeps_creation_mode:
  "save_nodes_np ex_array [''x'', ''y''] ''P'' None 2
       (Some Node_MERGE_ON_ID_IGNORE_ON_MATCH) (Some ''UNWIND $rows AS row CREATE (n:P)'') =
     \<lparr>warnings = [], index_calls = [],
      dispatched = Inl (ValueError ''id_ is needed when creation mode is either MERGE_ON_ID_IGNORE_ON_MATCH or MERGE_ON_ID_SET_ATTR_ON_MATCH'')\<rparr>
   \<and> save_nodes_df ex_df ''P'' None 2
       (Some Node_MERGE_ON_ID_IGNORE_ON_MATCH) None (Some ''UNWIND $rows AS row CREATE (n:P)'') =
     \<lparr>warnings = [''Passed label and cypher template to from_nodes_df. creation_mode has no effect.''],
      index_calls = [],
      dispatched = Inr \<lparr>d_rows = [[1, 10], [2, 20], [3, 30]],
                        d_cypher = ''UNWIND $rows AS row CREATE (n:P)'',
                        d_batch_size = 2, d_parallel = False\<rparr>\<rparr>
   \<and> map_sum id d_parallel
       (dispatched (save_nodes_np ex_array [''x'', ''y''] ''P'' (Some ''x'') 2
          (Some Node_MERGE_ON_ID_SET_ATTR_ON_MATCH)
          (Some ''UNWIND $rows AS row CREATE (n:P)''))) = Inr False
   \<and> map_sum id d_parallel
       (dispatched (save_nodes_np ex_array [''x'', ''y''] ''P'' (Some ''x'') 2
          (Some Node_CREATE) (Some ''UNWIND $rows AS row CREATE (n:P)''))) = Inr True"
  by code_simp

end
